theory Spec2Isabelle
  imports Main "HOL-Library.Multiset"
begin

section \<open>InterDexPass: data model\<close>

text \<open>
  Shallow embedding of \<^verbatim>\<open>opt/interdex/InterDexPass.cpp\<close>. Pointers to interned
  objects (\<^verbatim>\<open>DexType*\<close>, \<^verbatim>\<open>DexClass*\<close>) are natural numbers, a null pointer is
  \<open>None\<close>. \<^verbatim>\<open>std::unordered_set\<close> is a HOL set and \<^verbatim>\<open>size()\<close> is \<open>card\<close> (every set
  the pass builds is finite). A fatal exit of the process (\<^verbatim>\<open>always_assert_log\<close>,
  \<^verbatim>\<open>exit(1)\<close>) is the \<open>Inl\<close> branch of a sum. \<^verbatim>\<open>TRACE\<close> lines and the calls into
  external collaborators are appended to an event log, so that "nothing else happened"
  can be stated.
\<close>

type_synonym DexType = nat
type_synonym DexClass = nat
type_synonym DexClasses = "DexClass list"
type_synonym DexClassesVector = "DexClasses list"
type_synonym Scope = "DexClass list"
type_synonym Plugin = nat

datatype DexStatus = FIRST_COLDSTART_DEX | FIRST_EXTENDED_DEX | SCROLL_DEX

text \<open>The ways the process is terminated by this file.\<close>

datatype fatal =
    DexStatusNotFound string  \<comment> \<open>\<^verbatim>\<open>always_assert_log\<close> in \<open>get_mixed_mode_dex_statuses\<close>\<close>
  | CanTouchExtendedRequired  \<comment> \<open>\<^verbatim>\<open>always_assert_log\<close> in \<open>configure_pass\<close>\<close>
  | Exit1                     \<comment> \<open>\<^verbatim>\<open>exit(1)\<close> in \<open>get_mixed_mode_classes\<close>\<close>

text \<open>
  \<^verbatim>\<open>s.c_str()\<close> handed to a \<^verbatim>\<open>const char*\<close> parameter or to \<^verbatim>\<open>%s\<close>: the
  characters before the first NUL.
\<close>

definition c_str :: "string \<Rightarrow> string" where
  "c_str s = takeWhile (\<lambda>c. c \<noteq> CHR 0x00) s"

section \<open>The status table\<close>

definition string_to_status :: "(string \<times> DexStatus) list" where
  "string_to_status =
     [(''first_coldstart_dex'', FIRST_COLDSTART_DEX),
      (''first_extended_dex'', FIRST_EXTENDED_DEX),
      (''scroll_dex'', SCROLL_DEX)]"

text \<open>
  The loop of \<open>get_mixed_mode_dex_statuses\<close>, with \<open>res\<close> the set built so far. The
  assertion aborts on a name that \<^verbatim>\<open>string_to_status.count\<close> does not find.
\<close>

fun get_mixed_mode_dex_statuses_loop ::
  "string list \<Rightarrow> DexStatus set \<Rightarrow> fatal + DexStatus set" where
  "get_mixed_mode_dex_statuses_loop [] res = Inr res"
| "get_mixed_mode_dex_statuses_loop (mixed_mode_dex # rest) res =
     (case map_of string_to_status mixed_mode_dex of
        None \<Rightarrow> Inl (DexStatusNotFound (c_str mixed_mode_dex))
      | Some st \<Rightarrow> get_mixed_mode_dex_statuses_loop rest (insert st res))"

definition get_mixed_mode_dex_statuses :: "string list \<Rightarrow> fatal + DexStatus set" where
  "get_mixed_mode_dex_statuses mixed_mode_dex_statuses =
     get_mixed_mode_dex_statuses_loop mixed_mode_dex_statuses {}"

section \<open>External collaborators\<close>

text \<open>
  Mixed-mode configuration handed to the packing engine: nothing, the call
  \<^verbatim>\<open>set_mixed_mode_dex_statuses\<close>, or the call \<^verbatim>\<open>set_mixed_mode_classes\<close> with its
  two permissions.
\<close>

datatype MixedModeInfo =
    NoMixedMode
  | MixedModeDexStatuses "DexStatus set"
  | MixedModeClasses "DexClass set" bool bool

text \<open>
  The \<^verbatim>\<open>InterDex\<close> object as \<open>run_pass\<close> constructs and configures it (the APK manager
  and the \<^verbatim>\<open>ConfigFiles\<close> reference are opaque to this file and are left to the engine).
\<close>

record InterDex =
  idx_dexen :: DexClassesVector
  idx_plugins :: "Plugin list"
  idx_linear_alloc_limit :: int
  idx_static_prune :: bool
  idx_normal_primary_dex :: bool
  idx_emit_scroll_set_marker :: bool
  idx_emit_canaries :: bool
  idx_mixed_mode :: MixedModeInfo

record DexStore =
  is_root_store :: bool
  get_dexen :: DexClassesVector

datatype metric = METRIC_COLD_START_SET_DEX_COUNT | METRIC_SCROLL_SET_DEX_COUNT

record PassManager =
  no_proguard_rules :: bool
  metrics :: "metric \<Rightarrow> nat option"

definition set_metric :: "metric \<Rightarrow> nat \<Rightarrow> PassManager \<Rightarrow> PassManager" where
  "set_metric k v mgr = mgr\<lparr>metrics := (metrics mgr)(k \<mapsto> v)\<rparr>"

text \<open>The \<^verbatim>\<open>TRACE\<close> lines of the file, by message, with their arguments.\<close>

datatype diag =
    ClassFileNotFound string
  | NoDexTypeFor string
  | NoDexClassFor string
  | DuplicateClassesFound
  | AddingInMixedModeList DexClass
  | AddingToScrollList DexClass
  | WillCompilePredefinedDexes
  | PrecomputedMixedModeClasses nat
  | NotRunNoProguard

datatype event =
    TRACE nat diag
  | PLUGIN_CONFIGURE Plugin Scope
  | PLUGIN_CLEANUP Plugin Scope
  | INTERDEX_RUN InterDex

text \<open>
  Everything the file calls and does not define: the global type table
  (\<^verbatim>\<open>DexType::get_type\<close>, and \<^verbatim>\<open>type_class\<close> under the name \<open>type_class_of\<close>), the per-class flag
  \<^verbatim>\<open>rstate.has_mix_mode()\<close>, the file system behind \<^verbatim>\<open>std::ifstream\<close> (\<open>None\<close> when the
  stream fails to open), the plugin registry and the plugins' two hooks (which receive
  the scope by reference), the packing engine \<^verbatim>\<open>InterDex::run\<close> with its two counters,
  \<^verbatim>\<open>build_class_scope\<close>, and the value a \<^verbatim>\<open>std::move\<close> leaves behind in the member it
  moves from (which C++ leaves unspecified).
\<close>

record collaborators =
  get_type :: "string \<Rightarrow> DexType option"
  type_class_of :: "DexType \<Rightarrow> DexClass option"
  has_mix_mode :: "DexClass \<Rightarrow> bool"
  ifstream :: "string \<Rightarrow> string option"
  create_plugins :: "Plugin list"
  plugin_configure :: "Plugin \<Rightarrow> Scope \<Rightarrow> Scope"
  plugin_cleanup :: "Plugin \<Rightarrow> Scope \<Rightarrow> Scope"
  interdex_run :: "InterDex \<Rightarrow> DexClassesVector \<times> nat \<times> nat"
  build_class_scope :: "DexStore list \<Rightarrow> Scope"
  moved_from :: "DexStatus set \<Rightarrow> DexStatus set"

text \<open>A computation that logs events and either exits the process or returns.\<close>

type_synonym 'a run = "event list \<times> (fatal + 'a)"

definition emit :: "event \<Rightarrow> 'a run \<Rightarrow> 'a run" where
  "emit e m = (e # fst m, snd m)"

section \<open>Classification from the explicit list\<close>

text \<open>
  \<^verbatim>\<open>input >> class_name\<close> skips white space (of the "C" locale) and reads up to the next
  white space; it fails, ending the loop, when no character is left. \<open>stream_words\<close>
  carries the word read so far.
\<close>

definition isspace :: "char \<Rightarrow> bool" where
  "isspace c \<longleftrightarrow>
     c \<in> set [CHR '' '', CHR 0x09, CHR 0x0A, CHR 0x0B, CHR 0x0C, CHR 0x0D]"

fun stream_words :: "string \<Rightarrow> string \<Rightarrow> string list" where
  "stream_words [] w = (if w = [] then [] else [w])"
| "stream_words (c # cs) w =
     (if isspace c then (if w = [] then stream_words cs [] else w # stream_words cs [])
      else stream_words cs (w @ [c]))"

definition extract_words :: "string \<Rightarrow> string list" where
  "extract_words content = stream_words content []"

text \<open>
  The \<^verbatim>\<open>while\<close> loop of \<open>get_mixed_mode_classes(file)\<close> over the words still to be
  read, with the set built so far: the two \<^verbatim>\<open>continue\<close> branches, the \<^verbatim>\<open>exit(1)\<close> and
  the \<^verbatim>\<open>emplace\<close>.
\<close>

fun read_mixed_mode_classes ::
  "collaborators \<Rightarrow> string list \<Rightarrow> DexClass set \<Rightarrow> (DexClass set) run" where
  "read_mixed_mode_classes ext [] mixed_mode_classes = ([], Inr mixed_mode_classes)"
| "read_mixed_mode_classes ext (class_name # rest) mixed_mode_classes =
     (case get_type ext (c_str class_name) of
        None \<Rightarrow>
          emit (TRACE 4 (NoDexTypeFor (c_str class_name)))
            (read_mixed_mode_classes ext rest mixed_mode_classes)
      | Some ty \<Rightarrow>
          (case type_class_of ext ty of
             None \<Rightarrow>
               emit (TRACE 4 (NoDexClassFor (c_str class_name)))
                 (read_mixed_mode_classes ext rest mixed_mode_classes)
           | Some cls \<Rightarrow>
               if cls \<in> mixed_mode_classes
               then ([TRACE 2 DuplicateClassesFound], Inl Exit1)
               else emit (TRACE 4 (AddingInMixedModeList cls))
                      (read_mixed_mode_classes ext rest (insert cls mixed_mode_classes))))"

definition get_mixed_mode_classes_file :: "collaborators \<Rightarrow> string \<Rightarrow> (DexClass set) run" where
  "get_mixed_mode_classes_file ext mixed_mode_classes_file =
     (case ifstream ext (c_str mixed_mode_classes_file) of
        None \<Rightarrow> ([TRACE 2 (ClassFileNotFound (c_str mixed_mode_classes_file))], Inr {})
      | Some content \<Rightarrow> read_mixed_mode_classes ext (extract_words content) {})"

section \<open>Classification from the per-class flag\<close>

fun scan_dex :: "collaborators \<Rightarrow> DexClasses \<Rightarrow> DexClass set \<Rightarrow> event list \<times> DexClass set" where
  "scan_dex ext [] mixed_mode_classes = ([], mixed_mode_classes)"
| "scan_dex ext (cls # rest) mixed_mode_classes =
     (if has_mix_mode ext cls
      then (case scan_dex ext rest (insert cls mixed_mode_classes) of
              (log, res) \<Rightarrow> (TRACE 4 (AddingToScrollList cls) # log, res))
      else scan_dex ext rest mixed_mode_classes)"

fun scan_dexen ::
  "collaborators \<Rightarrow> DexClassesVector \<Rightarrow> DexClass set \<Rightarrow> event list \<times> DexClass set" where
  "scan_dexen ext [] mixed_mode_classes = ([], mixed_mode_classes)"
| "scan_dexen ext (dex # rest) mixed_mode_classes =
     (case scan_dex ext dex mixed_mode_classes of
        (log, res) \<Rightarrow>
          (case scan_dexen ext rest res of (log', res') \<Rightarrow> (log @ log', res')))"

definition get_mixed_mode_classes ::
  "collaborators \<Rightarrow> DexClassesVector \<Rightarrow> string \<Rightarrow> (DexClass set) run" where
  "get_mixed_mode_classes ext dexen mixed_mode_classes_file =
     (if mixed_mode_classes_file \<noteq> []
      then get_mixed_mode_classes_file ext mixed_mode_classes_file
      else (case scan_dexen ext dexen {} of (log, res) \<Rightarrow> (log, Inr res)))"

section \<open>The pass object and its configuration\<close>

text \<open>
  The keys of the JSON configuration that \<open>configure_pass\<close> reads; \<open>None\<close> is a key that
  is absent, and \<open>jw_get\<close> is \<^verbatim>\<open>jw.get(key, default, out)\<close>.
\<close>

record JsonWrapper =
  static_prune :: "bool option"
  emit_canaries :: "bool option"
  normal_primary_dex :: "bool option"
  linear_alloc_limit :: "int option"
  scroll_classes_file :: "string option"
  can_touch_coldstart_cls :: "bool option"
  can_touch_coldstart_extended_cls :: "bool option"
  mixed_mode_dexes :: "string list option"

definition jw_get :: "'a \<Rightarrow> 'a option \<Rightarrow> 'a" where
  "jw_get dflt v = (case v of None \<Rightarrow> dflt | Some x \<Rightarrow> x)"

record InterDexPass =
  m_static_prune :: bool
  m_emit_canaries :: bool
  m_normal_primary_dex :: bool
  m_linear_alloc_limit :: int
  m_mixed_mode_classes_file :: string
  m_can_touch_coldstart_cls :: bool
  m_can_touch_coldstart_extended_cls :: bool
  m_emit_scroll_set_marker :: bool
  m_mixed_mode_dex_statuses :: "DexStatus set"

definition configure_pass :: "JsonWrapper \<Rightarrow> InterDexPass \<Rightarrow> fatal + InterDexPass" where
  "configure_pass jw pass =
     (let pass1 = pass
            \<lparr>m_static_prune := jw_get False (static_prune jw),
             m_emit_canaries := jw_get True (emit_canaries jw),
             m_normal_primary_dex := jw_get False (normal_primary_dex jw),
             m_linear_alloc_limit := jw_get (11600 * 1024) (linear_alloc_limit jw),
             m_mixed_mode_classes_file := jw_get [] (scroll_classes_file jw),
             m_can_touch_coldstart_cls := jw_get False (can_touch_coldstart_cls jw),
             m_can_touch_coldstart_extended_cls :=
               jw_get False (can_touch_coldstart_extended_cls jw)\<rparr>
      in if \<not> (\<not> m_can_touch_coldstart_cls pass1 \<or> m_can_touch_coldstart_extended_cls pass1)
         then Inl CanTouchExtendedRequired
         else (case get_mixed_mode_dex_statuses (jw_get [] (mixed_mode_dexes jw)) of
                 Inl err \<Rightarrow> Inl err
               | Inr statuses \<Rightarrow> Inr (pass1\<lparr>m_mixed_mode_dex_statuses := statuses\<rparr>)))"

section \<open>Running the pass on one store\<close>

fun configure_plugins :: "collaborators \<Rightarrow> Plugin list \<Rightarrow> Scope \<Rightarrow> event list \<times> Scope" where
  "configure_plugins ext [] scope = ([], scope)"
| "configure_plugins ext (plugin # rest) scope =
     (case configure_plugins ext rest (plugin_configure ext plugin scope) of
        (log, scope') \<Rightarrow> (PLUGIN_CONFIGURE plugin scope # log, scope'))"

fun cleanup_plugins :: "collaborators \<Rightarrow> Plugin list \<Rightarrow> Scope \<Rightarrow> event list \<times> Scope" where
  "cleanup_plugins ext [] scope = ([], scope)"
| "cleanup_plugins ext (plugin # rest) scope =
     (case cleanup_plugins ext rest (plugin_cleanup ext plugin scope) of
        (log, scope') \<Rightarrow> (PLUGIN_CLEANUP plugin scope # log, scope'))"

text \<open>
  Lines 137 to 152 of \<open>run_pass\<close>: the choice between the pre-defined dexes and the
  pre-defined classes. The member \<open>m_mixed_mode_dex_statuses\<close> is moved from in the
  first branch.
\<close>

definition set_mixed_mode ::
  "collaborators \<Rightarrow> InterDexPass \<Rightarrow> DexClassesVector \<Rightarrow> InterDex \<Rightarrow> (InterDexPass \<times> InterDex) run" where
  "set_mixed_mode ext pass dexen interdex =
     (if card (m_mixed_mode_dex_statuses pass) \<noteq> 0
      then ([TRACE 3 WillCompilePredefinedDexes],
            Inr (pass\<lparr>m_mixed_mode_dex_statuses := moved_from ext (m_mixed_mode_dex_statuses pass)\<rparr>,
                 interdex\<lparr>idx_mixed_mode := MixedModeDexStatuses (m_mixed_mode_dex_statuses pass)\<rparr>))
      else (case get_mixed_mode_classes ext dexen (m_mixed_mode_classes_file pass) of
              (log, Inl err) \<Rightarrow> (log, Inl err)
            | (log, Inr mixed_mode_classes) \<Rightarrow>
                if card mixed_mode_classes > 0
                then (log @ [TRACE 3 (PrecomputedMixedModeClasses (card mixed_mode_classes))],
                      Inr (pass,
                           interdex\<lparr>idx_mixed_mode :=
                             MixedModeClasses mixed_mode_classes
                               (m_can_touch_coldstart_cls pass)
                               (m_can_touch_coldstart_extended_cls pass)\<rparr>))
                else (log, Inr (pass, interdex))))"

definition run_pass ::
  "collaborators \<Rightarrow> InterDexPass \<Rightarrow> DexClassesVector \<Rightarrow> Scope \<Rightarrow> PassManager \<Rightarrow>
     (InterDexPass \<times> DexClassesVector \<times> Scope \<times> PassManager) run" where
  "run_pass ext pass dexen original_scope mgr =
     (let plugins = create_plugins ext in
      case configure_plugins ext plugins original_scope of
        (log1, scope1) \<Rightarrow>
          (let interdex =
                 \<lparr>idx_dexen = dexen,
                  idx_plugins = plugins,
                  idx_linear_alloc_limit = m_linear_alloc_limit pass,
                  idx_static_prune = m_static_prune pass,
                  idx_normal_primary_dex = m_normal_primary_dex pass,
                  idx_emit_scroll_set_marker = m_emit_scroll_set_marker pass,
                  idx_emit_canaries = m_emit_canaries pass,
                  idx_mixed_mode = NoMixedMode\<rparr>
           in case set_mixed_mode ext pass dexen interdex of
                (log2, Inl err) \<Rightarrow> (log1 @ log2, Inl err)
              | (log2, Inr (pass', interdex')) \<Rightarrow>
                  (case interdex_run ext interdex' of
                     (dexen', num_cold_start_set_dexes, num_scroll_dexes) \<Rightarrow>
                       (case cleanup_plugins ext plugins scope1 of
                          (log3, scope3) \<Rightarrow>
                            (log1 @ log2 @ [INTERDEX_RUN interdex'] @ log3,
                             Inr (pass', dexen', scope3,
                                  set_metric METRIC_SCROLL_SET_DEX_COUNT num_scroll_dexes
                                    (set_metric METRIC_COLD_START_SET_DEX_COUNT
                                       num_cold_start_set_dexes mgr)))))))"

section \<open>Running the pass on all stores\<close>

text \<open>
  The loop over the stores of \<open>run_pass(stores, cfg, mgr)\<close>: a root store has its dexen
  replaced by what \<open>run_pass\<close> assigns, any other store is stepped over. The pass object,
  the scope and the pass manager are carried from one root store to the next.
\<close>

fun run_pass_loop ::
  "collaborators \<Rightarrow> DexStore list \<Rightarrow> InterDexPass \<Rightarrow> Scope \<Rightarrow> PassManager \<Rightarrow>
     (InterDexPass \<times> DexStore list \<times> PassManager) run" where
  "run_pass_loop ext [] pass original_scope mgr = ([], Inr (pass, [], mgr))"
| "run_pass_loop ext (store # rest) pass original_scope mgr =
     (if is_root_store store
      then (case run_pass ext pass (get_dexen store) original_scope mgr of
              (log, Inl err) \<Rightarrow> (log, Inl err)
            | (log, Inr (pass', dexen', scope', mgr')) \<Rightarrow>
                (case run_pass_loop ext rest pass' scope' mgr' of
                   (log', Inl err) \<Rightarrow> (log @ log', Inl err)
                 | (log', Inr (pass'', rest', mgr'')) \<Rightarrow>
                     (log @ log', Inr (pass'', store\<lparr>get_dexen := dexen'\<rparr> # rest', mgr''))))
      else (case run_pass_loop ext rest pass original_scope mgr of
              (log', Inl err) \<Rightarrow> (log', Inl err)
            | (log', Inr (pass'', rest', mgr'')) \<Rightarrow> (log', Inr (pass'', store # rest', mgr''))))"

definition run_pass_stores ::
  "collaborators \<Rightarrow> InterDexPass \<Rightarrow> DexStore list \<Rightarrow> PassManager \<Rightarrow>
     (InterDexPass \<times> DexStore list \<times> PassManager) run" where
  "run_pass_stores ext pass stores mgr =
     (if no_proguard_rules mgr
      then ([TRACE 1 NotRunNoProguard], Inr (pass, stores, mgr))
      else run_pass_loop ext stores pass (build_class_scope ext stores) mgr)"

section \<open>The packing engine, from the specification\<close>

text \<open>
  The packing engine (\<^verbatim>\<open>InterDex\<close>, with its \<^verbatim>\<open>run\<close>) is defined in another file of the
  repository; in the sections above it is the collaborator \<open>interdex_run\<close>. What one
  packing run does with the classes is described by the specification only (its
  sections 3 and 4.3), and every definition of this section follows that description.
\<close>


















section \<open>Notions used in the statements\<close>

text \<open>
  The class an entry of the list resolves to: lines 51 to 62 of the loop, \<open>None\<close> on
  either \<^verbatim>\<open>continue\<close>.
\<close>

definition resolve :: "collaborators \<Rightarrow> string \<Rightarrow> DexClass option" where
  "resolve ext class_name =
     (case get_type ext (c_str class_name) of
        None \<Rightarrow> None
      | Some ty \<Rightarrow> type_class_of ext ty)"


section \<open>A concrete environment\<close>

text \<open>
  A small type table, four list files and an engine that merges the dexen into one, for
  evaluating the definitions on concrete inputs.
\<close>

definition example_get_type :: "string \<Rightarrow> DexType option" where
  "example_get_type = map_of [(''Lcom/A;'', 1), (''Lcom/B;'', 2), (''Lcom/Gone;'', 3)]"

definition example_type_class :: "DexType \<Rightarrow> DexClass option" where
  "example_type_class = map_of [(1, 10), (2, 20)]"

definition example_ifstream :: "string \<Rightarrow> string option" where
  "example_ifstream =
     map_of
       [(''twice_missing.txt'', ''Lcom/Missing;\<newline>Lcom/Missing;\<newline>''),
        (''partial.txt'', ''Lcom/A;\<newline>Lcom/Missing; Lcom/Gone;\<newline>Lcom/B;\<newline>''),
        (''twice_a.txt'', ''Lcom/A;\<newline>Lcom/B;\<newline>Lcom/A;\<newline>''),
        (''nul.txt'', ''Lcom/A;\<newline>Lcom/A;'' @ [CHR 0x00] @ ''tail'')]"

definition example_interdex_run :: "InterDex \<Rightarrow> DexClassesVector \<times> nat \<times> nat" where
  "example_interdex_run interdex =
     ([concat (idx_dexen interdex)],
      (case idx_mixed_mode interdex of MixedModeDexStatuses S \<Rightarrow> 1 | _ \<Rightarrow> 0), 0)"

definition example_ext :: collaborators where
  "example_ext =
     \<lparr>get_type = example_get_type,
      type_class_of = example_type_class,
      has_mix_mode = (\<lambda>cls. cls = 20 \<or> cls = 30),
      ifstream = example_ifstream,
      create_plugins = [7],
      plugin_configure = (\<lambda>plugin scope. scope),
      plugin_cleanup = (\<lambda>plugin scope. scope),
      interdex_run = example_interdex_run,
      build_class_scope = (\<lambda>stores. concat (concat (map get_dexen stores))),
      moved_from = (\<lambda>S. {})\<rparr>"

definition example_jw :: JsonWrapper where
  "example_jw =
     \<lparr>static_prune = None, emit_canaries = None, normal_primary_dex = None,
      linear_alloc_limit = None, scroll_classes_file = None,
      can_touch_coldstart_cls = None, can_touch_coldstart_extended_cls = None,
      mixed_mode_dexes = None\<rparr>"

definition example_pass :: InterDexPass where
  "example_pass =
     \<lparr>m_static_prune = False, m_emit_canaries = False, m_normal_primary_dex = False,
      m_linear_alloc_limit = 0, m_mixed_mode_classes_file = [],
      m_can_touch_coldstart_cls = False, m_can_touch_coldstart_extended_cls = False,
      m_emit_scroll_set_marker = False, m_mixed_mode_dex_statuses = {}\<rparr>"

definition example_interdex :: InterDex where
  "example_interdex =
     \<lparr>idx_dexen = [[10], [20]], idx_plugins = [7], idx_linear_alloc_limit = 11878400,
      idx_static_prune = False, idx_normal_primary_dex = False,
      idx_emit_scroll_set_marker = False, idx_emit_canaries = True,
      idx_mixed_mode = NoMixedMode\<rparr>"

definition example_stores :: "DexStore list" where
  "example_stores =
     [\<lparr>is_root_store = False, get_dexen = [[30]]\<rparr>,
      \<lparr>is_root_store = True, get_dexen = [[10], [20]]\<rparr>,
      \<lparr>is_root_store = False, get_dexen = [[40, 50]]\<rparr>]"

definition example_two_roots :: "DexStore list" where
  "example_two_roots =
     [\<lparr>is_root_store = True, get_dexen = [[10], [20]]\<rparr>,
      \<lparr>is_root_store = True, get_dexen = [[30]]\<rparr>]"

definition example_mgr :: PassManager where
  "example_mgr = \<lparr>no_proguard_rules = False, metrics = (\<lambda>k. None)\<rparr>"






section \<open>Auxiliary facts\<close>

lemma finite_DexStatus_set: "finite (S :: DexStatus set)"
proof -
  have "(UNIV :: DexStatus set) = {FIRST_COLDSTART_DEX, FIRST_EXTENDED_DEX, SCROLL_DEX}"
    by (auto intro: DexStatus.exhaust)
  then have "finite (UNIV :: DexStatus set)" by (metis finite.emptyI finite.insertI)
  then show ?thesis by (rule finite_subset [OF subset_UNIV])
qed

lemma statuses_loop_first_unknown:
  "List.find (\<lambda>k. map_of string_to_status k = None) names = Some bad \<Longrightarrow>
     get_mixed_mode_dex_statuses_loop names res = Inl (DexStatusNotFound (c_str bad))"
  by (induction names arbitrary: res) (auto split: option.splits if_splits)

lemma statuses_loop_all_known:
  "List.find (\<lambda>k. map_of string_to_status k = None) names = None \<Longrightarrow>
     get_mixed_mode_dex_statuses_loop names res =
       Inr (res \<union> {st. \<exists>k \<in> set names. map_of string_to_status k = Some st})"
  by (induction names arbitrary: res) (auto split: option.splits if_splits)

lemma find_unknown_exists:
  "n \<in> set names \<Longrightarrow> P n \<Longrightarrow> \<exists>bad. List.find P names = Some bad"
  by (cases "List.find P names") (auto simp: find_None_iff)

lemma emit_snd [simp]: "snd (emit e m) = snd m"
  by (simp add: emit_def)

lemma emit_fst [simp]: "fst (emit e m) = e # fst m"
  by (simp add: emit_def)

lemma read_step_unresolved:
  "resolve ext bad = None \<Longrightarrow>
     read_mixed_mode_classes ext (bad # rest) acc =
       emit (TRACE 4 (if get_type ext (c_str bad) = None then NoDexTypeFor (c_str bad)
                      else NoDexClassFor (c_str bad)))
         (read_mixed_mode_classes ext rest acc)"
  by (auto simp: resolve_def split: option.splits)

lemma read_outcome:
  "snd (read_mixed_mode_classes ext toks acc) =
     (if distinct (List.map_filter (resolve ext) toks) \<and>
         set (List.map_filter (resolve ext) toks) \<inter> acc = {}
      then Inr (acc \<union> set (List.map_filter (resolve ext) toks)) else Inl Exit1)"
proof (induction toks arbitrary: acc)
  case Nil
  show ?case by simp
next
  case (Cons t toks)
  show ?case
  proof (cases "resolve ext t")
    case None
    then have "snd (read_mixed_mode_classes ext (t # toks) acc) =
        snd (read_mixed_mode_classes ext toks acc)"
      by (simp add: read_step_unresolved del: read_mixed_mode_classes.simps)
    with None Cons.IH [of acc] show ?thesis
      by (simp del: read_mixed_mode_classes.simps)
  next
    case (Some cls)
    then obtain ty where ty: "get_type ext (c_str t) = Some ty" "type_class_of ext ty = Some cls"
      by (auto simp: resolve_def split: option.splits)
    show ?thesis
    proof (cases "cls \<in> acc")
      case True
      then show ?thesis using Some ty by simp
    next
      case False
      then show ?thesis
        using Some ty Cons.IH [of "insert cls acc"]
        by auto
    qed
  qed
qed

lemma map_filter_append: "List.map_filter f (xs @ ys) = List.map_filter f xs @ List.map_filter f ys"
  by (simp add: List.map_filter_def)

lemma set_map_filter: "set (List.map_filter f xs) = {y. \<exists>x \<in> set xs. f x = Some y}"
  by (induction xs) (auto split: option.splits)

lemma read_finite:
  "finite acc \<Longrightarrow> snd (read_mixed_mode_classes ext toks acc) = Inr S \<Longrightarrow> finite S"
  by (auto simp: read_outcome split: if_splits)

lemma configure_pass_rejected:
  "jw_get False (can_touch_coldstart_cls jw) \<Longrightarrow>
   \<not> jw_get False (can_touch_coldstart_extended_cls jw) \<Longrightarrow>
   configure_pass jw pass = Inl CanTouchExtendedRequired"
  by (simp add: configure_pass_def Let_def)

lemma configure_pass_accepted:
  "\<not> jw_get False (can_touch_coldstart_cls jw) \<or>
   jw_get False (can_touch_coldstart_extended_cls jw) \<Longrightarrow>
   get_mixed_mode_dex_statuses (jw_get [] (mixed_mode_dexes jw)) = Inr statuses \<Longrightarrow>
   configure_pass jw pass =
     Inr (pass
            \<lparr>m_static_prune := jw_get False (static_prune jw),
             m_emit_canaries := jw_get True (emit_canaries jw),
             m_normal_primary_dex := jw_get False (normal_primary_dex jw),
             m_linear_alloc_limit := jw_get (11600 * 1024) (linear_alloc_limit jw),
             m_mixed_mode_classes_file := jw_get [] (scroll_classes_file jw),
             m_can_touch_coldstart_cls := jw_get False (can_touch_coldstart_cls jw),
             m_can_touch_coldstart_extended_cls :=
               jw_get False (can_touch_coldstart_extended_cls jw),
             m_mixed_mode_dex_statuses := statuses\<rparr>)"
  by (simp add: configure_pass_def Let_def)

lemma configure_pass_status_error:
  "\<not> jw_get False (can_touch_coldstart_cls jw) \<or>
   jw_get False (can_touch_coldstart_extended_cls jw) \<Longrightarrow>
   get_mixed_mode_dex_statuses (jw_get [] (mixed_mode_dexes jw)) = Inl err \<Longrightarrow>
   configure_pass jw pass = Inl err"
  by (auto simp add: configure_pass_def Let_def)

section \<open>Configuration validation\<close>

text \<open>
  C2. When \<open>can_touch_coldstart_cls\<close> is true and \<open>can_touch_coldstart_extended_cls\<close>
  is false (set so, or absent and defaulted), \<open>configure_pass\<close> ends in the fatal
  assertion and returns no pass object, so nothing can be packed. Whenever it does
  return a pass object, permission to touch cold-start classes implies permission to
  touch extended cold-start classes.
\<close>

theorem configure_pass_coldstart_needs_extended:
  "(jw_get False (can_touch_coldstart_cls jw) \<and>
    \<not> jw_get False (can_touch_coldstart_extended_cls jw) \<longrightarrow>
      configure_pass jw pass = Inl CanTouchExtendedRequired) \<and>
   (\<forall>pass'. configure_pass jw pass = Inr pass' \<longrightarrow>
      m_can_touch_coldstart_cls pass' \<longrightarrow> m_can_touch_coldstart_extended_cls pass')"
proof (intro conjI impI allI)
  assume "jw_get False (can_touch_coldstart_cls jw) \<and>
    \<not> jw_get False (can_touch_coldstart_extended_cls jw)"
  then show "configure_pass jw pass = Inl CanTouchExtendedRequired"
    by (simp add: configure_pass_rejected)
next
  fix pass'
  assume ok: "configure_pass jw pass = Inr pass'" and cold: "m_can_touch_coldstart_cls pass'"
  show "m_can_touch_coldstart_extended_cls pass'"
  proof (cases "\<not> jw_get False (can_touch_coldstart_cls jw) \<or>
      jw_get False (can_touch_coldstart_extended_cls jw)")
    case False
    then show ?thesis using ok by (simp add: configure_pass_rejected)
  next
    case True
    show ?thesis
    proof (cases "get_mixed_mode_dex_statuses (jw_get [] (mixed_mode_dexes jw))")
      case (Inl err)
      then show ?thesis using ok configure_pass_status_error [OF True Inl, of pass] by simp
    next
      case (Inr statuses)
      from configure_pass_accepted [OF True Inr, of pass] ok cold True
      show ?thesis by auto
    qed
  qed
qed

theorem configure_pass_coldstart_needs_extended_witness:
  "configure_pass (example_jw\<lparr>can_touch_coldstart_cls := Some True,
       can_touch_coldstart_extended_cls := Some False\<rparr>) example_pass
     = Inl CanTouchExtendedRequired \<and>
   (\<exists>pass'. configure_pass (example_jw\<lparr>can_touch_coldstart_cls := Some True,
       can_touch_coldstart_extended_cls := Some True\<rparr>) example_pass = Inr pass' \<and>
     m_can_touch_coldstart_cls pass' \<and> m_can_touch_coldstart_extended_cls pass')"
proof -
  let ?bad = "example_jw\<lparr>can_touch_coldstart_cls := Some True,
       can_touch_coldstart_extended_cls := Some False\<rparr>"
  let ?ok = "example_jw\<lparr>can_touch_coldstart_cls := Some True,
       can_touch_coldstart_extended_cls := Some True\<rparr>"
  have hyp: "jw_get False (can_touch_coldstart_cls ?bad) \<and>
      \<not> jw_get False (can_touch_coldstart_extended_cls ?bad)"
    by (simp add: jw_get_def)
  with configure_pass_coldstart_needs_extended [of ?bad example_pass]
  have rejected: "configure_pass ?bad example_pass = Inl CanTouchExtendedRequired"
    by blast
  have perm: "\<not> jw_get False (can_touch_coldstart_cls ?ok) \<or>
      jw_get False (can_touch_coldstart_extended_cls ?ok)"
    by (simp add: jw_get_def)
  have names: "get_mixed_mode_dex_statuses (jw_get [] (mixed_mode_dexes ?ok)) = Inr {}"
    by (simp add: jw_get_def example_jw_def get_mixed_mode_dex_statuses_def)
  from configure_pass_accepted [OF perm names, of example_pass]
  obtain pass' where ok: "configure_pass ?ok example_pass = Inr pass'"
    and cold: "m_can_touch_coldstart_cls pass'"
    by (simp add: jw_get_def)
  from configure_pass_coldstart_needs_extended [of ?ok example_pass] ok cold
  have "m_can_touch_coldstart_extended_cls pass'" by blast
  with rejected ok cold show ?thesis by blast
qed

text \<open>
  C3. When the configured sequence of segment names holds a name outside the status
  table, \<open>get_mixed_mode_dex_statuses\<close> ends in the fatal assertion for the first such
  name and yields no set, not even for the names before it; \<open>configure_pass\<close>, which
  calls it, then returns no pass object either (its only other fatal exit is the
  permission assertion, which comes first).
\<close>

theorem unknown_status_name_aborts:
  assumes "n \<in> set names" and "map_of string_to_status n = None"
  shows "\<exists>bad. List.find (\<lambda>k. map_of string_to_status k = None) names = Some bad \<and>
           get_mixed_mode_dex_statuses names = Inl (DexStatusNotFound (c_str bad)) \<and>
           (\<forall>jw pass. jw_get [] (mixed_mode_dexes jw) = names \<longrightarrow>
              (\<exists>err. configure_pass jw pass = Inl err) \<and>
              (configure_pass jw pass \<noteq> Inl CanTouchExtendedRequired \<longrightarrow>
                 configure_pass jw pass = Inl (DexStatusNotFound (c_str bad))))"
proof -
  from assms obtain bad
    where bad: "List.find (\<lambda>k. map_of string_to_status k = None) names = Some bad"
    using find_unknown_exists [of n names "\<lambda>k. map_of string_to_status k = None"] by blast
  then have res: "get_mixed_mode_dex_statuses names = Inl (DexStatusNotFound (c_str bad))"
    by (simp add: get_mixed_mode_dex_statuses_def statuses_loop_first_unknown)
  have "(\<exists>err. configure_pass jw pass = Inl err) \<and>
        (configure_pass jw pass \<noteq> Inl CanTouchExtendedRequired \<longrightarrow>
           configure_pass jw pass = Inl (DexStatusNotFound (c_str bad)))"
    if "jw_get [] (mixed_mode_dexes jw) = names" for jw pass
    using that res by (simp add: configure_pass_def Let_def)
  with bad res show ?thesis by blast
qed

theorem unknown_status_name_aborts_witness:
  "get_mixed_mode_dex_statuses [''scroll_dex'', ''bogus'', ''first_coldstart_dex'', ''nope'']
     = Inl (DexStatusNotFound ''bogus'') \<and>
   configure_pass
     (example_jw\<lparr>mixed_mode_dexes := Some [''scroll_dex'', ''bogus'', ''first_coldstart_dex'', ''nope'']\<rparr>)
     example_pass = Inl (DexStatusNotFound ''bogus'')"
proof -
  let ?names = "[''scroll_dex'', ''bogus'', ''first_coldstart_dex'', ''nope'']"
  have mem: "''bogus'' \<in> set ?names" by simp
  have unk: "map_of string_to_status ''bogus'' = None" by (simp add: string_to_status_def)
  from unknown_status_name_aborts [OF mem unk] obtain bad where
    f: "List.find (\<lambda>k. map_of string_to_status k = None) ?names = Some bad" and
    r: "get_mixed_mode_dex_statuses ?names = Inl (DexStatusNotFound (c_str bad))" and
    c: "\<forall>jw pass. jw_get [] (mixed_mode_dexes jw) = ?names \<longrightarrow>
              (\<exists>err. configure_pass jw pass = Inl err) \<and>
              (configure_pass jw pass \<noteq> Inl CanTouchExtendedRequired \<longrightarrow>
                 configure_pass jw pass = Inl (DexStatusNotFound (c_str bad)))"
    by blast
  from f have b: "bad = ''bogus''" by (simp add: string_to_status_def)
  have "configure_pass (example_jw\<lparr>mixed_mode_dexes := Some ?names\<rparr>) example_pass
          \<noteq> Inl CanTouchExtendedRequired"
    using r by (simp add: configure_pass_def example_jw_def jw_get_def Let_def)
  with c [rule_format, of "example_jw\<lparr>mixed_mode_dexes := Some ?names\<rparr>" example_pass]
  have "configure_pass (example_jw\<lparr>mixed_mode_dexes := Some ?names\<rparr>) example_pass
          = Inl (DexStatusNotFound (c_str bad))"
    by (simp add: jw_get_def)
  with r b show ?thesis by (simp add: c_str_def)
qed

section \<open>Reading the explicit list\<close>

lemma not_distinct_map_filter:
  assumes "i < j" and "j < length xs" and "f (xs ! i) = Some c" and "f (xs ! j) = Some c"
  shows "\<not> distinct (List.map_filter f xs)"
proof -
  from assms have split: "xs = take i xs @ xs ! i # drop (Suc i) xs"
    by (simp add: id_take_nth_drop)
  from assms have "xs ! j = drop (Suc i) xs ! (j - Suc i)" by simp
  moreover from assms have "j - Suc i < length (drop (Suc i) xs)" by simp
  ultimately have "xs ! j \<in> set (drop (Suc i) xs)" by (metis nth_mem)
  with assms have later: "c \<in> set (List.map_filter f (drop (Suc i) xs))"
    by (auto simp: set_map_filter)
  have "List.map_filter f xs =
      List.map_filter f (take i xs) @ c # List.map_filter f (drop (Suc i) xs)"
    by (subst split) (simp add: map_filter_append assms)
  with later show ?thesis by simp
qed

lemma file_outcome:
  "ifstream ext (c_str file) = Some content \<Longrightarrow>
   snd (get_mixed_mode_classes_file ext file) =
     (if distinct (List.map_filter (resolve ext) (extract_words content))
      then Inr (set (List.map_filter (resolve ext) (extract_words content)))
      else Inl Exit1)"
  by (simp add: get_mixed_mode_classes_file_def read_outcome)

lemma read_log_unresolved:
  "snd (read_mixed_mode_classes ext toks acc) = Inr S \<Longrightarrow> bad \<in> set toks \<Longrightarrow>
   resolve ext bad = None \<Longrightarrow>
   TRACE 4 (if get_type ext (c_str bad) = None then NoDexTypeFor (c_str bad)
            else NoDexClassFor (c_str bad))
     \<in> set (fst (read_mixed_mode_classes ext toks acc))"
proof (induction toks arbitrary: acc)
  case Nil
  then show ?case by simp
next
  case (Cons t toks)
  show ?case
  proof (cases "resolve ext t")
    case None
    with Cons show ?thesis
      by (cases "t = bad") (auto simp add: read_step_unresolved simp del: read_mixed_mode_classes.simps)
  next
    case (Some cls)
    then obtain ty where ty: "get_type ext (c_str t) = Some ty" "type_class_of ext ty = Some cls"
      by (auto simp: resolve_def split: option.splits)
    from Some Cons.prems have ne: "t \<noteq> bad" by auto
    from Cons.prems ty have notin: "cls \<notin> acc" by (auto split: if_splits)
    with Cons.prems ty have "snd (read_mixed_mode_classes ext toks (insert cls acc)) = Inr S"
      by simp
    from Cons.IH [OF this] Cons.prems ne ty notin show ?thesis by simp
  qed
qed

text \<open>
  A list file in which the identifier \<^verbatim>\<open>Lcom/Missing;\<close> occurs twice, in a scope
  whose type table does not know it: both entries take the first \<^verbatim>\<open>continue\<close>, and the
  read returns the empty set.
\<close>

theorem duplicate_unresolvable_identifier_is_skipped:
  "ifstream example_ext (c_str ''twice_missing.txt'') =
     Some ''Lcom/Missing;\<newline>Lcom/Missing;\<newline>'' \<and>
   extract_words ''Lcom/Missing;\<newline>Lcom/Missing;\<newline>'' =
     [''Lcom/Missing;'', ''Lcom/Missing;''] \<and>
   get_mixed_mode_classes_file example_ext ''twice_missing.txt'' =
     ([TRACE 4 (NoDexTypeFor ''Lcom/Missing;''), TRACE 4 (NoDexTypeFor ''Lcom/Missing;'')],
      Inr {})"
  by (simp add: get_mixed_mode_classes_file_def example_ext_def example_ifstream_def
      c_str_def extract_words_def isspace_def example_get_type_def emit_def)

text \<open>
  C4, as amended. When the list file can be opened and some identifier that resolves to
  a class of the current scope occurs in it more than once, reading the list ends in
  \<^verbatim>\<open>exit(1)\<close>.
\<close>

theorem repeated_resolvable_identifier_is_fatal:
  assumes "ifstream ext (c_str file) = Some content"
    and "i < j" and "j < length (extract_words content)"
    and "extract_words content ! i = extract_words content ! j"
    and "resolve ext (extract_words content ! i) = Some cls"
  shows "snd (get_mixed_mode_classes_file ext file) = Inl Exit1"
proof -
  from assms have "resolve ext (extract_words content ! j) = Some cls" by simp
  with assms have "\<not> distinct (List.map_filter (resolve ext) (extract_words content))"
    by (intro not_distinct_map_filter [of i j _ _ cls]) simp_all
  with assms(1) show ?thesis by (simp add: file_outcome)
qed

theorem repeated_resolvable_identifier_is_fatal_witness:
  "extract_words ''Lcom/A;\<newline>Lcom/B;\<newline>Lcom/A;\<newline>'' = [''Lcom/A;'', ''Lcom/B;'', ''Lcom/A;''] \<and>
   resolve example_ext ''Lcom/A;'' = Some 10 \<and>
   snd (get_mixed_mode_classes_file example_ext ''twice_a.txt'') = Inl Exit1"
proof -
  let ?content = "''Lcom/A;\<newline>Lcom/B;\<newline>Lcom/A;\<newline>''"
  have opened: "ifstream example_ext (c_str ''twice_a.txt'') = Some ?content"
    by (simp add: example_ext_def example_ifstream_def c_str_def)
  have ws: "extract_words ?content = [''Lcom/A;'', ''Lcom/B;'', ''Lcom/A;'']"
    by (simp add: extract_words_def isspace_def)
  have res: "resolve example_ext ''Lcom/A;'' = Some 10"
    by (simp add: resolve_def example_ext_def example_get_type_def example_type_class_def
        c_str_def)
  have "snd (get_mixed_mode_classes_file example_ext ''twice_a.txt'') = Inl Exit1"
    by (rule repeated_resolvable_identifier_is_fatal [OF opened, of 0 2 10])
      (simp_all add: ws res)
  with ws res show ?thesis by simp
qed

text \<open>
  C5. An entry of the list that does not resolve to a class (no \<^verbatim>\<open>DexType\<close> of that
  name, or a type without a class) is stepped over: the read ends exactly as the read
  of the list without that entry. When the remaining entries name pairwise different
  classes, the read returns (no exit) the set of exactly the classes the remaining
  entries resolve to, and the log holds the diagnostic for the entry stepped over.
\<close>

theorem unresolvable_entry_is_skipped:
  assumes "ifstream ext (c_str file) = Some content"
    and "extract_words content = pre @ bad # post"
    and "resolve ext bad = None"
  shows "snd (get_mixed_mode_classes_file ext file) =
           snd (read_mixed_mode_classes ext (pre @ post) {}) \<and>
         (distinct (List.map_filter (resolve ext) (pre @ post)) \<longrightarrow>
            snd (get_mixed_mode_classes_file ext file) =
              Inr {cls. \<exists>n \<in> set (pre @ post). resolve ext n = Some cls} \<and>
            TRACE 4 (if get_type ext (c_str bad) = None then NoDexTypeFor (c_str bad)
                     else NoDexClassFor (c_str bad))
              \<in> set (fst (get_mixed_mode_classes_file ext file)))"
proof -
  have same: "List.map_filter (resolve ext) (pre @ bad # post) =
      List.map_filter (resolve ext) (pre @ post)"
    using assms(3) by (simp add: map_filter_append)
  have run: "get_mixed_mode_classes_file ext file =
      read_mixed_mode_classes ext (pre @ bad # post) {}"
    using assms(1,2) by (simp add: get_mixed_mode_classes_file_def)
  have outcome: "snd (get_mixed_mode_classes_file ext file) =
      snd (read_mixed_mode_classes ext (pre @ post) {})"
    unfolding run read_outcome same ..
  moreover have "snd (get_mixed_mode_classes_file ext file) =
        Inr {cls. \<exists>n \<in> set (pre @ post). resolve ext n = Some cls} \<and>
      TRACE 4 (if get_type ext (c_str bad) = None then NoDexTypeFor (c_str bad)
               else NoDexClassFor (c_str bad))
        \<in> set (fst (get_mixed_mode_classes_file ext file))"
    if d: "distinct (List.map_filter (resolve ext) (pre @ post))"
  proof -
    from d have r: "snd (get_mixed_mode_classes_file ext file) =
        Inr {cls. \<exists>n \<in> set (pre @ post). resolve ext n = Some cls}"
      unfolding outcome read_outcome by (simp add: set_map_filter)
    then have "snd (read_mixed_mode_classes ext (pre @ bad # post) {}) =
        Inr {cls. \<exists>n \<in> set (pre @ post). resolve ext n = Some cls}"
      by (simp only: run)
    from read_log_unresolved [OF this _ assms(3)] r show ?thesis
      by (simp only: run) simp
  qed
  ultimately show ?thesis by blast
qed

theorem unresolvable_entry_is_skipped_witness:
  "resolve example_ext ''Lcom/Missing;'' = None \<and>
   get_mixed_mode_classes_file example_ext ''partial.txt'' =
     ([TRACE 4 (AddingInMixedModeList 10), TRACE 4 (NoDexTypeFor ''Lcom/Missing;''),
       TRACE 4 (NoDexClassFor ''Lcom/Gone;''), TRACE 4 (AddingInMixedModeList 20)],
      Inr {10, 20}) \<and>
   snd (get_mixed_mode_classes_file example_ext ''partial.txt'') =
     snd (read_mixed_mode_classes example_ext [''Lcom/A;'', ''Lcom/Gone;'', ''Lcom/B;''] {})"
proof -
  let ?content = "''Lcom/A;\<newline>Lcom/Missing; Lcom/Gone;\<newline>Lcom/B;\<newline>''"
  have opened: "ifstream example_ext (c_str ''partial.txt'') = Some ?content"
    by (simp add: example_ext_def example_ifstream_def c_str_def)
  have ws: "extract_words ?content = [''Lcom/A;''] @ ''Lcom/Missing;'' # [''Lcom/Gone;'', ''Lcom/B;'']"
    by (simp add: extract_words_def isspace_def)
  have res: "resolve example_ext ''Lcom/Missing;'' = None"
    by (simp add: resolve_def example_ext_def example_get_type_def c_str_def)
  have run: "get_mixed_mode_classes_file example_ext ''partial.txt'' =
     ([TRACE 4 (AddingInMixedModeList 10), TRACE 4 (NoDexTypeFor ''Lcom/Missing;''),
       TRACE 4 (NoDexClassFor ''Lcom/Gone;''), TRACE 4 (AddingInMixedModeList 20)],
      Inr {10, 20})"
    by (simp add: get_mixed_mode_classes_file_def example_ext_def example_ifstream_def
        c_str_def extract_words_def isspace_def example_get_type_def example_type_class_def
        emit_def insert_commute)
  from unresolvable_entry_is_skipped [OF opened ws res] res run show ?thesis by simp
qed

lemma map_filter_drop_unresolved:
  "List.map_filter f (filter (\<lambda>x. f x \<noteq> None) xs) = List.map_filter f xs"
  by (induction xs) auto

text \<open>
  C10. The duplicate check of the list is on resolved classes. The read exits exactly
  when two entries resolve to the same class, whether or not they are spelled the same;
  entries that do not resolve can be deleted from the list, however often they repeat,
  without changing how the read ends.
\<close>

theorem duplicates_are_judged_on_resolved_classes:
  assumes "ifstream ext (c_str file) = Some content"
  shows "snd (get_mixed_mode_classes_file ext file) =
           (if distinct (List.map_filter (resolve ext) (extract_words content))
            then Inr (set (List.map_filter (resolve ext) (extract_words content)))
            else Inl Exit1) \<and>
         snd (get_mixed_mode_classes_file ext file) =
           snd (read_mixed_mode_classes ext
                  (filter (\<lambda>n. resolve ext n \<noteq> None) (extract_words content)) {}) \<and>
         (\<forall>i j cls. i < j \<and> j < length (extract_words content) \<and>
            resolve ext (extract_words content ! i) = Some cls \<and>
            resolve ext (extract_words content ! j) = Some cls \<longrightarrow>
            snd (get_mixed_mode_classes_file ext file) = Inl Exit1)"
proof (intro conjI allI impI)
  show "snd (get_mixed_mode_classes_file ext file) =
           (if distinct (List.map_filter (resolve ext) (extract_words content))
            then Inr (set (List.map_filter (resolve ext) (extract_words content)))
            else Inl Exit1)"
    using assms by (rule file_outcome)
next
  show "snd (get_mixed_mode_classes_file ext file) =
           snd (read_mixed_mode_classes ext
                  (filter (\<lambda>n. resolve ext n \<noteq> None) (extract_words content)) {})"
  proof -
    have run: "get_mixed_mode_classes_file ext file =
        read_mixed_mode_classes ext (extract_words content) {}"
      using assms by (simp add: get_mixed_mode_classes_file_def)
    show ?thesis unfolding run read_outcome map_filter_drop_unresolved ..
  qed
next
  fix i j cls
  assume "i < j \<and> j < length (extract_words content) \<and>
            resolve ext (extract_words content ! i) = Some cls \<and>
            resolve ext (extract_words content ! j) = Some cls"
  then have "\<not> distinct (List.map_filter (resolve ext) (extract_words content))"
    by (intro not_distinct_map_filter [of i j _ _ cls]) simp_all
  with assms show "snd (get_mixed_mode_classes_file ext file) = Inl Exit1"
    by (simp add: file_outcome)
qed

theorem duplicates_are_judged_on_resolved_classes_witness:
  "extract_words ''Lcom/Missing;\<newline>Lcom/Missing;\<newline>'' = [''Lcom/Missing;'', ''Lcom/Missing;''] \<and>
   resolve example_ext ''Lcom/Missing;'' = None \<and>
   snd (get_mixed_mode_classes_file example_ext ''twice_missing.txt'') = Inr {} \<and>
   extract_words (''Lcom/A;\<newline>Lcom/A;'' @ [CHR 0x00] @ ''tail'') =
     [''Lcom/A;'', ''Lcom/A;'' @ [CHR 0x00] @ ''tail''] \<and>
   ''Lcom/A;'' \<noteq> ''Lcom/A;'' @ [CHR 0x00] @ ''tail'' \<and>
   resolve example_ext ''Lcom/A;'' = Some 10 \<and>
   resolve example_ext (''Lcom/A;'' @ [CHR 0x00] @ ''tail'') = Some 10 \<and>
   snd (get_mixed_mode_classes_file example_ext ''nul.txt'') = Inl Exit1"
proof -
  let ?missing = "''Lcom/Missing;\<newline>Lcom/Missing;\<newline>''"
  let ?nul = "''Lcom/A;\<newline>Lcom/A;'' @ [CHR 0x00] @ ''tail''"
  have o1: "ifstream example_ext (c_str ''twice_missing.txt'') = Some ?missing"
    by (simp add: example_ext_def example_ifstream_def c_str_def)
  have o2: "ifstream example_ext (c_str ''nul.txt'') = Some ?nul"
    by (simp add: example_ext_def example_ifstream_def c_str_def)
  have w1: "extract_words ?missing = [''Lcom/Missing;'', ''Lcom/Missing;'']"
    by (simp add: extract_words_def isspace_def)
  have w2: "extract_words ?nul = [''Lcom/A;'', ''Lcom/A;'' @ [CHR 0x00] @ ''tail'']"
    by (simp add: extract_words_def isspace_def)
  have r0: "resolve example_ext ''Lcom/Missing;'' = None"
    by (simp add: resolve_def example_ext_def example_get_type_def c_str_def)
  have r1: "resolve example_ext ''Lcom/A;'' = Some 10"
    by (simp add: resolve_def example_ext_def example_get_type_def example_type_class_def
        c_str_def)
  have r2: "resolve example_ext (''Lcom/A;'' @ [CHR 0x00] @ ''tail'') = Some 10"
    by (simp add: resolve_def example_ext_def example_get_type_def example_type_class_def
        c_str_def)
  from duplicates_are_judged_on_resolved_classes [OF o1]
  have a: "snd (get_mixed_mode_classes_file example_ext ''twice_missing.txt'') = Inr {}"
    by (simp add: w1 r0 del: append.simps)
  from duplicates_are_judged_on_resolved_classes [OF o2]
  have "\<forall>i j cls. i < j \<and> j < length (extract_words ?nul) \<and>
            resolve example_ext (extract_words ?nul ! i) = Some cls \<and>
            resolve example_ext (extract_words ?nul ! j) = Some cls \<longrightarrow>
            snd (get_mixed_mode_classes_file example_ext ''nul.txt'') = Inl Exit1"
    by blast
  from this [rule_format, of 0 1 10]
  have b: "snd (get_mixed_mode_classes_file example_ext ''nul.txt'') = Inl Exit1"
    unfolding w2 using r1 r2 by simp
  from a b w1 w2 r0 r1 r2 show ?thesis by simp
qed

lemma resolve_ignores_flags [simp]:
  "resolve (ext\<lparr>has_mix_mode := flags\<rparr>) n = resolve ext n"
  by (simp add: resolve_def split: option.splits)

lemma read_ignores_flags:
  "read_mixed_mode_classes (ext\<lparr>has_mix_mode := flags\<rparr>) toks acc =
     read_mixed_mode_classes ext toks acc"
  by (induction toks arbitrary: acc) (auto split: option.splits)

lemma file_ignores_flags:
  "get_mixed_mode_classes_file (ext\<lparr>has_mix_mode := flags\<rparr>) file =
     get_mixed_mode_classes_file ext file"
  by (simp add: get_mixed_mode_classes_file_def read_ignores_flags split: option.splits)

lemma scan_dex_result:
  "snd (scan_dex ext dex acc) = acc \<union> {cls \<in> set dex. has_mix_mode ext cls}"
  by (induction dex arbitrary: acc) (auto simp: case_prod_beta)

lemma scan_dexen_result:
  "snd (scan_dexen ext dexen acc) =
     acc \<union> {cls \<in> \<Union> (set ` set dexen). has_mix_mode ext cls}"
proof (induction dexen arbitrary: acc)
  case Nil
  show ?case by simp
next
  case (Cons dex dexen)
  have "snd (scan_dexen ext (dex # dexen) acc) =
      snd (scan_dexen ext dexen (snd (scan_dex ext dex acc)))"
    by (simp add: case_prod_beta)
  then show ?case unfolding Cons.IH scan_dex_result by auto
qed

section \<open>The choice between the list and the flags\<close>

text \<open>
  C6. With a non-empty \<open>scroll_classes_file\<close> the classification is the read of the
  file, whatever the per-class flags and the dexen are; when the file cannot be opened
  the result is the empty set with one diagnostic, and the flags are still not looked
  at. With an empty file name the result is the set of the classes of the dexen whose
  flag is set.
\<close>

theorem explicit_list_wins_over_flags:
  "(mixed_mode_classes_file \<noteq> [] \<longrightarrow>
      get_mixed_mode_classes (ext\<lparr>has_mix_mode := flags\<rparr>) dexen' mixed_mode_classes_file =
        get_mixed_mode_classes ext dexen mixed_mode_classes_file \<and>
      get_mixed_mode_classes ext dexen mixed_mode_classes_file = get_mixed_mode_classes_file ext mixed_mode_classes_file \<and>
      (ifstream ext (c_str mixed_mode_classes_file) = None \<longrightarrow>
         get_mixed_mode_classes ext dexen mixed_mode_classes_file =
           ([TRACE 2 (ClassFileNotFound (c_str mixed_mode_classes_file))], Inr {}))) \<and>
   (mixed_mode_classes_file = [] \<longrightarrow>
      snd (get_mixed_mode_classes ext dexen mixed_mode_classes_file) =
        Inr {cls \<in> \<Union> (set ` set dexen). has_mix_mode ext cls})"
proof (intro conjI impI)
  assume "mixed_mode_classes_file \<noteq> []"
  then show "get_mixed_mode_classes (ext\<lparr>has_mix_mode := flags\<rparr>) dexen' mixed_mode_classes_file =
        get_mixed_mode_classes ext dexen mixed_mode_classes_file"
    by (simp add: get_mixed_mode_classes_def file_ignores_flags)
next
  assume "mixed_mode_classes_file \<noteq> []"
  then show "get_mixed_mode_classes ext dexen mixed_mode_classes_file = get_mixed_mode_classes_file ext mixed_mode_classes_file"
    by (simp add: get_mixed_mode_classes_def)
next
  assume "mixed_mode_classes_file \<noteq> []" and "ifstream ext (c_str mixed_mode_classes_file) = None"
  then show "get_mixed_mode_classes ext dexen mixed_mode_classes_file =
           ([TRACE 2 (ClassFileNotFound (c_str mixed_mode_classes_file))], Inr {})"
    by (simp add: get_mixed_mode_classes_def get_mixed_mode_classes_file_def)
next
  assume "mixed_mode_classes_file = []"
  then have "snd (get_mixed_mode_classes ext dexen mixed_mode_classes_file) = Inr (snd (scan_dexen ext dexen {}))"
    by (simp add: get_mixed_mode_classes_def split: prod.splits)
  then show "snd (get_mixed_mode_classes ext dexen mixed_mode_classes_file) =
        Inr {cls \<in> \<Union> (set ` set dexen). has_mix_mode ext cls}"
    by (simp add: scan_dexen_result)
qed


theorem explicit_list_wins_over_flags_witness:
  "get_mixed_mode_classes example_ext [[10, 20], [30]] ''absent.txt'' =
     ([TRACE 2 (ClassFileNotFound ''absent.txt'')], Inr {}) \<and>
   get_mixed_mode_classes (example_ext\<lparr>has_mix_mode := (\<lambda>cls. True)\<rparr>) [[30]] ''partial.txt'' =
     get_mixed_mode_classes example_ext [[10, 20], [30]] ''partial.txt'' \<and>
   snd (get_mixed_mode_classes example_ext [[10, 20], [30]] ''partial.txt'') = Inr {10, 20} \<and>
   snd (get_mixed_mode_classes example_ext [[10, 20], [30]] []) = Inr {20, 30}"
proof -
  have absent: "ifstream example_ext (c_str ''absent.txt'') = None"
    by (simp add: example_ext_def example_ifstream_def c_str_def)
  have ne: "''absent.txt'' \<noteq> []" "''partial.txt'' \<noteq> []" by simp_all
  from explicit_list_wins_over_flags
    [where mixed_mode_classes_file = "''absent.txt''" and ext = example_ext
      and flags = "\<lambda>cls. True" and dexen' = "[]" and dexen = "[[10, 20], [30]]"]
    absent ne
  have "get_mixed_mode_classes example_ext [[10, 20], [30]] ''absent.txt'' =
     ([TRACE 2 (ClassFileNotFound (c_str ''absent.txt''))], Inr {})"
    by blast
  then have a: "get_mixed_mode_classes example_ext [[10, 20], [30]] ''absent.txt'' =
     ([TRACE 2 (ClassFileNotFound ''absent.txt'')], Inr {})"
    by (simp add: c_str_def)
  from explicit_list_wins_over_flags
    [where mixed_mode_classes_file = "''partial.txt''" and ext = example_ext and flags = "\<lambda>cls. True"
      and dexen' = "[[30]]" and dexen = "[[10, 20], [30]]"] ne
  have b: "get_mixed_mode_classes (example_ext\<lparr>has_mix_mode := (\<lambda>cls. True)\<rparr>) [[30]] ''partial.txt'' =
     get_mixed_mode_classes example_ext [[10, 20], [30]] ''partial.txt''"
    and b': "get_mixed_mode_classes example_ext [[10, 20], [30]] ''partial.txt'' =
      get_mixed_mode_classes_file example_ext ''partial.txt''"
    by blast+
  have "snd (get_mixed_mode_classes_file example_ext ''partial.txt'') = Inr {10, 20}"
    by (simp add: get_mixed_mode_classes_file_def example_ext_def example_ifstream_def
        c_str_def extract_words_def isspace_def example_get_type_def example_type_class_def
        emit_def insert_commute)
  with b' have c: "snd (get_mixed_mode_classes example_ext [[10, 20], [30]] ''partial.txt'') = Inr {10, 20}"
    by simp
  from explicit_list_wins_over_flags
    [where mixed_mode_classes_file = "[]" and ext = example_ext
      and flags = "\<lambda>cls. True" and dexen' = "[]" and dexen = "[[10, 20], [30]]"]
  have d: "snd (get_mixed_mode_classes example_ext [[10, 20], [30]] []) = Inr {20, 30}"
    by (auto simp: example_ext_def)
  from a b c d show ?thesis by blast
qed

section \<open>Orchestration\<close>

lemma card_statuses_zero: "card (S :: DexStatus set) = 0 \<longleftrightarrow> S = {}"
  by (simp add: finite_DexStatus_set)

lemma set_mixed_mode_statuses:
  "m_mixed_mode_dex_statuses pass \<noteq> {} \<Longrightarrow>
   set_mixed_mode ext pass dexen interdex =
     ([TRACE 3 WillCompilePredefinedDexes],
      Inr (pass\<lparr>m_mixed_mode_dex_statuses := moved_from ext (m_mixed_mode_dex_statuses pass)\<rparr>,
           interdex\<lparr>idx_mixed_mode := MixedModeDexStatuses (m_mixed_mode_dex_statuses pass)\<rparr>))"
  by (simp add: set_mixed_mode_def card_statuses_zero)

lemma set_mixed_mode_classes:
  "m_mixed_mode_dex_statuses pass = {} \<Longrightarrow>
   set_mixed_mode ext pass dexen interdex =
     (case get_mixed_mode_classes ext dexen (m_mixed_mode_classes_file pass) of
        (log, Inl err) \<Rightarrow> (log, Inl err)
      | (log, Inr mixed_mode_classes) \<Rightarrow>
          if card mixed_mode_classes > 0
          then (log @ [TRACE 3 (PrecomputedMixedModeClasses (card mixed_mode_classes))],
                Inr (pass,
                     interdex\<lparr>idx_mixed_mode :=
                       MixedModeClasses mixed_mode_classes
                         (m_can_touch_coldstart_cls pass)
                         (m_can_touch_coldstart_extended_cls pass)\<rparr>))
          else (log, Inr (pass, interdex)))"
  by (simp add: set_mixed_mode_def)

lemma set_mixed_mode_keeps_dexen:
  "set_mixed_mode ext pass dexen interdex = (log, Inr (pass', interdex')) \<Longrightarrow>
   idx_dexen interdex' = idx_dexen interdex"
  by (auto simp: set_mixed_mode_def split: if_splits prod.splits sum.splits)

lemma run_pass_repacks:
  assumes "run_pass ext pass dexen scope mgr = (log, Inr (pass', dexen', scope', mgr'))"
  shows "\<exists>interdex. idx_dexen interdex = dexen \<and> dexen' = fst (interdex_run ext interdex)"
proof -
  let ?idx = "\<lparr>idx_dexen = dexen,
                  idx_plugins = create_plugins ext,
                  idx_linear_alloc_limit = m_linear_alloc_limit pass,
                  idx_static_prune = m_static_prune pass,
                  idx_normal_primary_dex = m_normal_primary_dex pass,
                  idx_emit_scroll_set_marker = m_emit_scroll_set_marker pass,
                  idx_emit_canaries = m_emit_canaries pass,
                  idx_mixed_mode = NoMixedMode\<rparr>"
  obtain log2 r where sm: "set_mixed_mode ext pass dexen ?idx = (log2, r)"
    by (cases "set_mixed_mode ext pass dexen ?idx") auto
  show ?thesis
  proof (cases r)
    case (Inl err)
    with assms sm show ?thesis
      by (simp add: run_pass_def Let_def split: prod.splits)
  next
    case (Inr pi)
    obtain p i where pi: "pi = (p, i)" by (cases pi) auto
    from sm Inr pi have "idx_dexen i = dexen"
      using set_mixed_mode_keeps_dexen [of ext pass dexen ?idx log2 p i] by simp
    moreover from assms sm Inr pi have "dexen' = fst (interdex_run ext i)"
      by (auto simp add: run_pass_def Let_def split: prod.splits)
    ultimately show ?thesis by blast
  qed
qed

lemma run_pass_loop_frame:
  "run_pass_loop ext stores pass scope mgr = (log, Inr (pass', stores', mgr')) \<Longrightarrow>
   list_all2
     (\<lambda>s s'. is_root_store s' = is_root_store s \<and>
        (\<not> is_root_store s \<longrightarrow> s' = s) \<and>
        (is_root_store s \<longrightarrow>
           (\<exists>interdex. idx_dexen interdex = get_dexen s \<and>
              get_dexen s' = fst (interdex_run ext interdex))))
     stores stores'"
proof (induction stores arbitrary: pass scope mgr log pass' stores' mgr')
  case Nil
  then show ?case by simp
next
  case (Cons store rest)
  show ?case
  proof (cases "is_root_store store")
    case False
    with Cons.prems obtain rest' where
      rec: "run_pass_loop ext rest pass scope mgr = (log, Inr (pass', rest', mgr'))"
      and st: "stores' = store # rest'"
      by (auto split: prod.splits sum.splits)
    from Cons.IH [OF rec] False st show ?thesis by simp
  next
    case True
    with Cons.prems obtain log1 p1 d1 s1 m1 log2 rest' where
      one: "run_pass ext pass (get_dexen store) scope mgr = (log1, Inr (p1, d1, s1, m1))"
      and rec: "run_pass_loop ext rest p1 s1 m1 = (log2, Inr (pass', rest', mgr'))"
      and st: "stores' = store\<lparr>get_dexen := d1\<rparr> # rest'"
      by (auto split: prod.splits sum.splits)
    from run_pass_repacks [OF one] obtain interdex where
      "idx_dexen interdex = get_dexen store" "d1 = fst (interdex_run ext interdex)"
      by blast
    with Cons.IH [OF rec] True st show ?thesis by auto
  qed
qed

lemma statuses_nonempty:
  assumes "get_mixed_mode_dex_statuses names = Inr S" and "names \<noteq> []"
  shows "S \<noteq> {}"
proof (cases "List.find (\<lambda>k. map_of string_to_status k = None) names")
  case (Some bad)
  with assms(1) show ?thesis
    by (simp add: get_mixed_mode_dex_statuses_def statuses_loop_first_unknown)
next
  case None
  then have known: "\<forall>k \<in> set names. map_of string_to_status k \<noteq> None"
    by (simp add: find_None_iff)
  from assms(2) obtain k where k: "k \<in> set names" by (cases names) auto
  with known obtain st where "map_of string_to_status k = Some st" by auto
  with k None assms(1) show ?thesis
    by (auto simp: get_mixed_mode_dex_statuses_def statuses_loop_all_known)
qed

lemma configured_statuses_nonempty:
  assumes "configure_pass jw pass0 = Inr pass" and "jw_get [] (mixed_mode_dexes jw) \<noteq> []"
  shows "m_mixed_mode_dex_statuses pass \<noteq> {}"
proof (cases "\<not> jw_get False (can_touch_coldstart_cls jw) \<or>
      jw_get False (can_touch_coldstart_extended_cls jw)")
  case False
  with assms(1) show ?thesis by (simp add: configure_pass_rejected)
next
  case True
  show ?thesis
  proof (cases "get_mixed_mode_dex_statuses (jw_get [] (mixed_mode_dexes jw))")
    case (Inl err)
    with assms(1) configure_pass_status_error [OF True Inl, of pass0] show ?thesis by simp
  next
    case (Inr S)
    from statuses_nonempty [OF Inr assms(2)] have "S \<noteq> {}" .
    with assms(1) configure_pass_accepted [OF True Inr, of pass0] show ?thesis by auto
  qed
qed

lemma scan_dexen_finite: "finite acc \<Longrightarrow> finite (snd (scan_dexen ext dexen acc))"
  by (simp add: scan_dexen_result)

lemma classification_finite:
  assumes "snd (get_mixed_mode_classes ext dexen file) = Inr S"
  shows "finite S"
proof (cases "file = []")
  case True
  with assms have "S = snd (scan_dexen ext dexen {})"
    by (simp add: get_mixed_mode_classes_def case_prod_beta)
  then show ?thesis by (simp add: scan_dexen_finite)
next
  case False
  with assms have r: "snd (get_mixed_mode_classes_file ext file) = Inr S"
    by (simp add: get_mixed_mode_classes_def)
  show ?thesis
  proof (cases "ifstream ext (c_str file)")
    case None
    with r show ?thesis by (simp add: get_mixed_mode_classes_file_def)
  next
    case (Some content)
    with r have "snd (read_mixed_mode_classes ext (extract_words content) {}) = Inr S"
      by (simp add: get_mixed_mode_classes_file_def)
    then show ?thesis using read_finite [of "{}"] by blast
  qed
qed

lemma example_configure_pass:
  "configure_pass
     (example_jw\<lparr>scroll_classes_file := Some ''twice_a.txt'',
        mixed_mode_dexes := Some [''scroll_dex'']\<rparr>) example_pass =
   Inr (example_pass\<lparr>m_emit_canaries := True, m_linear_alloc_limit := 11878400,
          m_mixed_mode_classes_file := ''twice_a.txt'',
          m_mixed_mode_dex_statuses := {SCROLL_DEX}\<rparr>)"
  by (simp add: configure_pass_def example_jw_def example_pass_def jw_get_def
      get_mixed_mode_dex_statuses_def string_to_status_def)

lemma example_run_pass:
  "run_pass example_ext example_pass [[10], [20]] [30, 10, 20, 40, 50] example_mgr =
     ([PLUGIN_CONFIGURE 7 [30, 10, 20, 40, 50],
       TRACE 4 (AddingToScrollList 20),
       TRACE 3 (PrecomputedMixedModeClasses 1),
       INTERDEX_RUN (example_interdex
         \<lparr>idx_emit_canaries := False, idx_linear_alloc_limit := 0,
          idx_mixed_mode := MixedModeClasses {20} False False\<rparr>),
       PLUGIN_CLEANUP 7 [30, 10, 20, 40, 50]],
      Inr (example_pass, [[10, 20]], [30, 10, 20, 40, 50],
           set_metric METRIC_SCROLL_SET_DEX_COUNT 0
             (set_metric METRIC_COLD_START_SET_DEX_COUNT 0 example_mgr)))"
  by (simp add: run_pass_def set_mixed_mode_def get_mixed_mode_classes_def example_ext_def
      example_pass_def example_interdex_def example_interdex_run_def)

lemma example_run_pass_stores:
  "run_pass_stores example_ext example_pass example_stores example_mgr =
     ([PLUGIN_CONFIGURE 7 [30, 10, 20, 40, 50],
       TRACE 4 (AddingToScrollList 20),
       TRACE 3 (PrecomputedMixedModeClasses 1),
       INTERDEX_RUN (example_interdex
         \<lparr>idx_emit_canaries := False, idx_linear_alloc_limit := 0,
          idx_mixed_mode := MixedModeClasses {20} False False\<rparr>),
       PLUGIN_CLEANUP 7 [30, 10, 20, 40, 50]],
      Inr (example_pass,
           [\<lparr>is_root_store = False, get_dexen = [[30]]\<rparr>,
            \<lparr>is_root_store = True, get_dexen = [[10, 20]]\<rparr>,
            \<lparr>is_root_store = False, get_dexen = [[40, 50]]\<rparr>],
           set_metric METRIC_SCROLL_SET_DEX_COUNT 0
             (set_metric METRIC_COLD_START_SET_DEX_COUNT 0 example_mgr)))"
proof -
  have scope: "build_class_scope example_ext example_stores = [30, 10, 20, 40, 50]"
    by (simp add: example_ext_def example_stores_def)
  have np: "\<not> no_proguard_rules example_mgr" by (simp add: example_mgr_def)
  show ?thesis
    unfolding run_pass_stores_def scope
    by (simp add: np example_stores_def example_run_pass)
qed

text \<open>
  One call of \<open>run_pass\<close> on one store. A pass object configured from a non-empty
  \<open>mixed_mode_dexes\<close> holds a non-empty set of pre-defined dex statuses. When the set is
  not empty on entry, the call hands it to the engine and does nothing else to choose
  the mixed mode: the outcome of lines 137 to 152 is given in closed form and does not
  change when the type table, the flags, the file system or the name of the list file
  are replaced. When the set is empty on entry, the log starts with the
  classification's log, a fatal exit of the classification is the outcome, and a
  non-empty class set is what the engine receives.
\<close>

lemma run_pass_with_predefined_dexes:
  "(\<forall>jw pass0. configure_pass jw pass0 = Inr pass \<and> jw_get [] (mixed_mode_dexes jw) \<noteq> [] \<longrightarrow>
      m_mixed_mode_dex_statuses pass \<noteq> {}) \<and>
   (m_mixed_mode_dex_statuses pass \<noteq> {} \<longrightarrow>
      set_mixed_mode ext pass dexen interdex =
        ([TRACE 3 WillCompilePredefinedDexes],
         Inr (pass\<lparr>m_mixed_mode_dex_statuses :=
                     moved_from ext (m_mixed_mode_dex_statuses pass)\<rparr>,
              interdex\<lparr>idx_mixed_mode :=
                     MixedModeDexStatuses (m_mixed_mode_dex_statuses pass)\<rparr>)) \<and>
      fst (set_mixed_mode
             (ext\<lparr>get_type := gt, type_class_of := tc, has_mix_mode := flags, ifstream := fs\<rparr>)
             (pass\<lparr>m_mixed_mode_classes_file := any_file\<rparr>) dexen interdex) =
        fst (set_mixed_mode ext pass dexen interdex) \<and>
      map_sum id snd (snd (set_mixed_mode
             (ext\<lparr>get_type := gt, type_class_of := tc, has_mix_mode := flags, ifstream := fs\<rparr>)
             (pass\<lparr>m_mixed_mode_classes_file := any_file\<rparr>) dexen interdex)) =
        map_sum id snd (snd (set_mixed_mode ext pass dexen interdex)) \<and>
      (\<exists>interdex' pass' dexen' scope' mgr'.
         run_pass ext pass dexen scope mgr =
           (fst (configure_plugins ext (create_plugins ext) scope) @
              [TRACE 3 WillCompilePredefinedDexes, INTERDEX_RUN interdex'] @
              fst (cleanup_plugins ext (create_plugins ext)
                     (snd (configure_plugins ext (create_plugins ext) scope))),
            Inr (pass', dexen', scope', mgr')) \<and>
         idx_mixed_mode interdex' = MixedModeDexStatuses (m_mixed_mode_dex_statuses pass) \<and>
         dexen' = fst (interdex_run ext interdex'))) \<and>
   (m_mixed_mode_dex_statuses pass = {} \<longrightarrow>
      (\<exists>log'. fst (set_mixed_mode ext pass dexen interdex) =
         fst (get_mixed_mode_classes ext dexen (m_mixed_mode_classes_file pass)) @ log') \<and>
      (\<forall>err. snd (get_mixed_mode_classes ext dexen (m_mixed_mode_classes_file pass)) = Inl err \<longrightarrow>
         snd (set_mixed_mode ext pass dexen interdex) = Inl err) \<and>
      (\<forall>classes. snd (get_mixed_mode_classes ext dexen (m_mixed_mode_classes_file pass)) = Inr classes \<longrightarrow>
         snd (set_mixed_mode ext pass dexen interdex) =
           Inr (pass,
                if classes \<noteq> {}
                then interdex\<lparr>idx_mixed_mode :=
                       MixedModeClasses classes (m_can_touch_coldstart_cls pass)
                         (m_can_touch_coldstart_extended_cls pass)\<rparr>
                else interdex)))"
proof (intro conjI impI)
  show "\<forall>jw pass0. configure_pass jw pass0 = Inr pass \<and> jw_get [] (mixed_mode_dexes jw) \<noteq> [] \<longrightarrow>
      m_mixed_mode_dex_statuses pass \<noteq> {}"
    using configured_statuses_nonempty by blast
next
  assume ne: "m_mixed_mode_dex_statuses pass \<noteq> {}"
  then show "set_mixed_mode ext pass dexen interdex =
        ([TRACE 3 WillCompilePredefinedDexes],
         Inr (pass\<lparr>m_mixed_mode_dex_statuses :=
                     moved_from ext (m_mixed_mode_dex_statuses pass)\<rparr>,
              interdex\<lparr>idx_mixed_mode :=
                     MixedModeDexStatuses (m_mixed_mode_dex_statuses pass)\<rparr>))"
    by (rule set_mixed_mode_statuses)
  from ne show "fst (set_mixed_mode
             (ext\<lparr>get_type := gt, type_class_of := tc, has_mix_mode := flags, ifstream := fs\<rparr>)
             (pass\<lparr>m_mixed_mode_classes_file := any_file\<rparr>) dexen interdex) =
        fst (set_mixed_mode ext pass dexen interdex)"
    by (simp add: set_mixed_mode_statuses)
  from ne show "map_sum id snd (snd (set_mixed_mode
             (ext\<lparr>get_type := gt, type_class_of := tc, has_mix_mode := flags, ifstream := fs\<rparr>)
             (pass\<lparr>m_mixed_mode_classes_file := any_file\<rparr>) dexen interdex)) =
        map_sum id snd (snd (set_mixed_mode ext pass dexen interdex))"
    by (simp add: set_mixed_mode_statuses)
  from ne show "\<exists>interdex' pass' dexen' scope' mgr'.
         run_pass ext pass dexen scope mgr =
           (fst (configure_plugins ext (create_plugins ext) scope) @
              [TRACE 3 WillCompilePredefinedDexes, INTERDEX_RUN interdex'] @
              fst (cleanup_plugins ext (create_plugins ext)
                     (snd (configure_plugins ext (create_plugins ext) scope))),
            Inr (pass', dexen', scope', mgr')) \<and>
         idx_mixed_mode interdex' = MixedModeDexStatuses (m_mixed_mode_dex_statuses pass) \<and>
         dexen' = fst (interdex_run ext interdex')"
    by (simp add: run_pass_def Let_def set_mixed_mode_statuses case_prod_beta)
next
  assume e: "m_mixed_mode_dex_statuses pass = {}"
  obtain log r where g: "get_mixed_mode_classes ext dexen (m_mixed_mode_classes_file pass) = (log, r)"
    by (cases "get_mixed_mode_classes ext dexen (m_mixed_mode_classes_file pass)") auto
  from e g show "\<exists>log'. fst (set_mixed_mode ext pass dexen interdex) =
         fst (get_mixed_mode_classes ext dexen (m_mixed_mode_classes_file pass)) @ log'"
    by (cases r) (simp_all add: set_mixed_mode_classes)
  from e g show "\<forall>err. snd (get_mixed_mode_classes ext dexen (m_mixed_mode_classes_file pass)) = Inl err \<longrightarrow>
         snd (set_mixed_mode ext pass dexen interdex) = Inl err"
    by (simp add: set_mixed_mode_classes)
  show "\<forall>classes. snd (get_mixed_mode_classes ext dexen (m_mixed_mode_classes_file pass)) = Inr classes \<longrightarrow>
         snd (set_mixed_mode ext pass dexen interdex) =
           Inr (pass,
                if classes \<noteq> {}
                then interdex\<lparr>idx_mixed_mode :=
                       MixedModeClasses classes (m_can_touch_coldstart_cls pass)
                         (m_can_touch_coldstart_extended_cls pass)\<rparr>
                else interdex)"
  proof (intro allI impI)
    fix classes
    assume c: "snd (get_mixed_mode_classes ext dexen (m_mixed_mode_classes_file pass)) = Inr classes"
    then have "finite classes" by (rule classification_finite)
    then have "card classes > 0 \<longleftrightarrow> classes \<noteq> {}" by (simp add: card_gt_0_iff)
    with e g c show "snd (set_mixed_mode ext pass dexen interdex) =
           Inr (pass,
                if classes \<noteq> {}
                then interdex\<lparr>idx_mixed_mode :=
                       MixedModeClasses classes (m_can_touch_coldstart_cls pass)
                         (m_can_touch_coldstart_extended_cls pass)\<rparr>
                else interdex)"
      by (simp add: set_mixed_mode_classes)
  qed
qed

lemma example_configure_pass_no_file:
  "configure_pass (example_jw\<lparr>mixed_mode_dexes := Some [''scroll_dex'']\<rparr>) example_pass =
   Inr (example_pass\<lparr>m_emit_canaries := True, m_linear_alloc_limit := 11878400,
          m_mixed_mode_dex_statuses := {SCROLL_DEX}\<rparr>)"
  by (simp add: configure_pass_def example_jw_def example_pass_def jw_get_def
      get_mixed_mode_dex_statuses_def string_to_status_def)

lemma example_first_root_run:
  "run_pass example_ext
     (example_pass\<lparr>m_emit_canaries := True, m_linear_alloc_limit := 11878400,
        m_mixed_mode_classes_file := name, m_mixed_mode_dex_statuses := {SCROLL_DEX}\<rparr>)
     [[10], [20]] [10, 20, 30] example_mgr =
   ([PLUGIN_CONFIGURE 7 [10, 20, 30], TRACE 3 WillCompilePredefinedDexes,
     INTERDEX_RUN (example_interdex\<lparr>idx_mixed_mode := MixedModeDexStatuses {SCROLL_DEX}\<rparr>),
     PLUGIN_CLEANUP 7 [10, 20, 30]],
    Inr (example_pass\<lparr>m_emit_canaries := True, m_linear_alloc_limit := 11878400,
           m_mixed_mode_classes_file := name, m_mixed_mode_dex_statuses := {}\<rparr>,
         [[10, 20]], [10, 20, 30],
         set_metric METRIC_SCROLL_SET_DEX_COUNT 0
           (set_metric METRIC_COLD_START_SET_DEX_COUNT 1 example_mgr)))"
  by (simp add: run_pass_def set_mixed_mode_def example_ext_def example_pass_def
      example_interdex_def example_interdex_run_def)

lemma example_second_root_run_list:
  "run_pass example_ext
     (example_pass\<lparr>m_emit_canaries := True, m_linear_alloc_limit := 11878400,
        m_mixed_mode_classes_file := ''twice_a.txt'', m_mixed_mode_dex_statuses := {}\<rparr>)
     [[30]] [10, 20, 30] mgr =
   ([PLUGIN_CONFIGURE 7 [10, 20, 30], TRACE 4 (AddingInMixedModeList 10),
     TRACE 4 (AddingInMixedModeList 20), TRACE 2 DuplicateClassesFound],
    Inl Exit1)"
  by (simp add: run_pass_def set_mixed_mode_def get_mixed_mode_classes_def
      get_mixed_mode_classes_file_def example_ext_def example_pass_def example_ifstream_def
      c_str_def extract_words_def isspace_def example_get_type_def example_type_class_def
      emit_def)

lemma example_second_root_run_flags:
  "run_pass example_ext
     (example_pass\<lparr>m_emit_canaries := True, m_linear_alloc_limit := 11878400,
        m_mixed_mode_classes_file := [], m_mixed_mode_dex_statuses := {}\<rparr>)
     [[30]] [10, 20, 30] mgr =
   ([PLUGIN_CONFIGURE 7 [10, 20, 30], TRACE 4 (AddingToScrollList 30),
     TRACE 3 (PrecomputedMixedModeClasses 1),
     INTERDEX_RUN (example_interdex\<lparr>idx_dexen := [[30]],
       idx_mixed_mode := MixedModeClasses {30} False False\<rparr>),
     PLUGIN_CLEANUP 7 [10, 20, 30]],
    Inr (example_pass\<lparr>m_emit_canaries := True, m_linear_alloc_limit := 11878400,
           m_mixed_mode_classes_file := [], m_mixed_mode_dex_statuses := {}\<rparr>,
         [[30]], [10, 20, 30],
         set_metric METRIC_SCROLL_SET_DEX_COUNT 0
           (set_metric METRIC_COLD_START_SET_DEX_COUNT 0 mgr)))"
  by (simp add: run_pass_def set_mixed_mode_def get_mixed_mode_classes_def
      example_ext_def example_pass_def example_interdex_def example_interdex_run_def)

lemma run_pass_entered_with_statuses:
  assumes "m_mixed_mode_dex_statuses pass \<noteq> {}"
  shows "\<exists>log interdex dexen' scope' mgr'.
     run_pass ext pass dexen scope mgr =
       (log, Inr (pass\<lparr>m_mixed_mode_dex_statuses :=
                         moved_from ext (m_mixed_mode_dex_statuses pass)\<rparr>,
                  dexen', scope', mgr')) \<and>
     INTERDEX_RUN interdex \<in> set log \<and>
     idx_mixed_mode interdex = MixedModeDexStatuses (m_mixed_mode_dex_statuses pass)"
proof -
  let ?interdex = "\<lparr>idx_dexen = dexen, idx_plugins = create_plugins ext,
      idx_linear_alloc_limit = m_linear_alloc_limit pass,
      idx_static_prune = m_static_prune pass,
      idx_normal_primary_dex = m_normal_primary_dex pass,
      idx_emit_scroll_set_marker = m_emit_scroll_set_marker pass,
      idx_emit_canaries = m_emit_canaries pass,
      idx_mixed_mode = MixedModeDexStatuses (m_mixed_mode_dex_statuses pass)\<rparr>"
  let ?log = "fst (configure_plugins ext (create_plugins ext) scope) @
      [TRACE 3 WillCompilePredefinedDexes, INTERDEX_RUN ?interdex] @
      fst (cleanup_plugins ext (create_plugins ext)
             (snd (configure_plugins ext (create_plugins ext) scope)))"
  from assms have run: "run_pass ext pass dexen scope mgr =
      (?log,
       Inr (pass\<lparr>m_mixed_mode_dex_statuses :=
                   moved_from ext (m_mixed_mode_dex_statuses pass)\<rparr>,
            fst (interdex_run ext ?interdex),
            snd (cleanup_plugins ext (create_plugins ext)
                   (snd (configure_plugins ext (create_plugins ext) scope))),
            set_metric METRIC_SCROLL_SET_DEX_COUNT (snd (snd (interdex_run ext ?interdex)))
              (set_metric METRIC_COLD_START_SET_DEX_COUNT
                 (fst (snd (interdex_run ext ?interdex))) mgr)))"
    by (simp add: run_pass_def Let_def set_mixed_mode_statuses case_prod_beta)
  have ev: "INTERDEX_RUN ?interdex \<in> set ?log" by simp
  have mode: "idx_mixed_mode ?interdex = MixedModeDexStatuses (m_mixed_mode_dex_statuses pass)"
    by simp
  from run ev mode show ?thesis by blast
qed

lemma run_pass_entered_without_statuses:
  assumes "m_mixed_mode_dex_statuses pass = {}"
  shows "(\<exists>log. fst (run_pass ext pass dexen scope mgr) =
            fst (configure_plugins ext (create_plugins ext) scope) @
            fst (get_mixed_mode_classes ext dexen (m_mixed_mode_classes_file pass)) @ log) \<and>
         (\<forall>err. snd (get_mixed_mode_classes ext dexen (m_mixed_mode_classes_file pass)) = Inl err \<longrightarrow>
            snd (run_pass ext pass dexen scope mgr) = Inl err)"
proof -
  obtain log r where g: "get_mixed_mode_classes ext dexen (m_mixed_mode_classes_file pass) = (log, r)"
    by (cases "get_mixed_mode_classes ext dexen (m_mixed_mode_classes_file pass)") auto
  show ?thesis
  proof (cases r)
    case (Inl err)
    with assms g show ?thesis
      by (simp add: run_pass_def Let_def set_mixed_mode_classes case_prod_beta)
  next
    case (Inr classes)
    with assms g show ?thesis
      by (simp add: run_pass_def Let_def set_mixed_mode_classes case_prod_beta)
  qed
qed

lemma run_pass_loop_two_roots:
  assumes "is_root_store first" and "is_root_store second"
    and "run_pass ext pass (get_dexen first) scope mgr = (log1, Inr (pass1, dexen1, scope1, mgr1))"
  shows "fst (run_pass_loop ext [first, second] pass scope mgr) =
           log1 @ fst (run_pass ext pass1 (get_dexen second) scope1 mgr1) \<and>
         (\<forall>err. snd (run_pass ext pass1 (get_dexen second) scope1 mgr1) = Inl err \<longrightarrow>
            snd (run_pass_loop ext [first, second] pass scope mgr) = Inl err)"
proof -
  obtain log2 r2 where second: "run_pass ext pass1 (get_dexen second) scope1 mgr1 = (log2, r2)"
    by (cases "run_pass ext pass1 (get_dexen second) scope1 mgr1") auto
  show ?thesis
  proof (cases r2)
    case (Inl err)
    with assms second show ?thesis by simp
  next
    case (Inr res)
    obtain p2 d2 s2 m2 where "res = (p2, d2, s2, m2)" by (cases res) auto
    with Inr assms second show ?thesis by simp
  qed
qed

text \<open>
  C7. The priority of the pre-defined dexes (the comment at line 137) holds for the
  first root store only. Line 141 moves the member \<open>m_mixed_mode_dex_statuses\<close> into the
  engine, and the loop of lines 178 to 181 calls \<open>run_pass\<close> with the same pass object
  for every root store. For a pass object configured from a non-empty
  \<open>mixed_mode_dexes\<close>, two root stores, and a move that leaves the member empty: the run
  on the first store gives the engine the pre-defined dexes and returns the pass object
  with the empty set; the run on the second store then computes the class-set
  classification from the list file or the flags (its log follows the plugin
  configuration), and a fatal exit of that classification ends the whole pass.
\<close>

theorem second_root_store_takes_the_class_set_path:
  assumes "configure_pass jw pass0 = Inr pass"
    and "jw_get [] (mixed_mode_dexes jw) \<noteq> []"
    and "moved_from ext (m_mixed_mode_dex_statuses pass) = {}"
    and "is_root_store first" and "is_root_store second"
    and "\<not> no_proguard_rules mgr"
  shows "m_mixed_mode_dex_statuses pass \<noteq> {} \<and>
    (\<exists>log1 interdex dexen1 scope1 mgr1.
       run_pass ext pass (get_dexen first) (build_class_scope ext [first, second]) mgr =
         (log1, Inr (pass\<lparr>m_mixed_mode_dex_statuses := {}\<rparr>, dexen1, scope1, mgr1)) \<and>
       INTERDEX_RUN interdex \<in> set log1 \<and>
       idx_mixed_mode interdex = MixedModeDexStatuses (m_mixed_mode_dex_statuses pass) \<and>
       fst (run_pass_stores ext pass [first, second] mgr) =
         log1 @ fst (run_pass ext (pass\<lparr>m_mixed_mode_dex_statuses := {}\<rparr>)
                       (get_dexen second) scope1 mgr1) \<and>
       (\<exists>log. fst (run_pass ext (pass\<lparr>m_mixed_mode_dex_statuses := {}\<rparr>)
                      (get_dexen second) scope1 mgr1) =
          fst (configure_plugins ext (create_plugins ext) scope1) @
          fst (get_mixed_mode_classes ext (get_dexen second) (m_mixed_mode_classes_file pass)) @
          log)) \<and>
    (\<forall>err. snd (get_mixed_mode_classes ext (get_dexen second)
                  (m_mixed_mode_classes_file pass)) = Inl err \<longrightarrow>
       snd (run_pass_stores ext pass [first, second] mgr) = Inl err)"
proof -
  let ?scope = "build_class_scope ext [first, second]"
  let ?pass1 = "pass\<lparr>m_mixed_mode_dex_statuses := {}\<rparr>"
  from assms(1,2) have ne: "m_mixed_mode_dex_statuses pass \<noteq> {}"
    by (rule configured_statuses_nonempty)
  from run_pass_entered_with_statuses [OF ne, of ext "get_dexen first" ?scope mgr] assms(3)
  obtain log1 interdex dexen1 scope1 mgr1 where
    one: "run_pass ext pass (get_dexen first) ?scope mgr =
       (log1, Inr (?pass1, dexen1, scope1, mgr1))"
    and ev: "INTERDEX_RUN interdex \<in> set log1"
    and mode: "idx_mixed_mode interdex = MixedModeDexStatuses (m_mixed_mode_dex_statuses pass)"
    by auto
  have empty: "m_mixed_mode_dex_statuses ?pass1 = {}" by simp
  have same_file: "m_mixed_mode_classes_file ?pass1 = m_mixed_mode_classes_file pass" by simp
  note second = run_pass_entered_without_statuses
    [OF empty, of ext "get_dexen second" scope1 mgr1, unfolded same_file]
  note loop = run_pass_loop_two_roots [OF assms(4,5) one]
  have stores: "run_pass_stores ext pass [first, second] mgr =
      run_pass_loop ext [first, second] pass ?scope mgr"
    using assms(6) by (simp add: run_pass_stores_def)
  have logs: "fst (run_pass_stores ext pass [first, second] mgr) =
         log1 @ fst (run_pass ext ?pass1 (get_dexen second) scope1 mgr1)"
    using loop by (simp only: stores)
  have exits: "\<forall>err. snd (get_mixed_mode_classes ext (get_dexen second)
                  (m_mixed_mode_classes_file pass)) = Inl err \<longrightarrow>
       snd (run_pass_stores ext pass [first, second] mgr) = Inl err"
    using loop second by (simp only: stores) blast
  from ne one ev mode logs second exits show ?thesis by blast
qed

text \<open>
  The configuration names \<^verbatim>\<open>scroll_dex\<close> and there are two root stores. With the list
  file \<^verbatim>\<open>twice_a.txt\<close> configured, the second store's run reads the list and ends in
  \<^verbatim>\<open>exit(1)\<close>; with no list file it scans the flags and gives the engine the class set
  of the flagged class.
\<close>

theorem second_root_store_takes_the_class_set_path_witness:
  "configure_pass
     (example_jw\<lparr>scroll_classes_file := Some ''twice_a.txt'',
        mixed_mode_dexes := Some [''scroll_dex'']\<rparr>) example_pass =
   Inr (example_pass\<lparr>m_emit_canaries := True, m_linear_alloc_limit := 11878400,
          m_mixed_mode_classes_file := ''twice_a.txt'',
          m_mixed_mode_dex_statuses := {SCROLL_DEX}\<rparr>) \<and>
   moved_from example_ext {SCROLL_DEX} = {} \<and>
   run_pass_stores example_ext
     (example_pass\<lparr>m_emit_canaries := True, m_linear_alloc_limit := 11878400,
        m_mixed_mode_classes_file := ''twice_a.txt'',
        m_mixed_mode_dex_statuses := {SCROLL_DEX}\<rparr>) example_two_roots example_mgr =
   ([PLUGIN_CONFIGURE 7 [10, 20, 30], TRACE 3 WillCompilePredefinedDexes,
     INTERDEX_RUN (example_interdex\<lparr>idx_mixed_mode := MixedModeDexStatuses {SCROLL_DEX}\<rparr>),
     PLUGIN_CLEANUP 7 [10, 20, 30],
     PLUGIN_CONFIGURE 7 [10, 20, 30], TRACE 4 (AddingInMixedModeList 10),
     TRACE 4 (AddingInMixedModeList 20), TRACE 2 DuplicateClassesFound],
    Inl Exit1) \<and>
   configure_pass (example_jw\<lparr>mixed_mode_dexes := Some [''scroll_dex'']\<rparr>) example_pass =
   Inr (example_pass\<lparr>m_emit_canaries := True, m_linear_alloc_limit := 11878400,
          m_mixed_mode_dex_statuses := {SCROLL_DEX}\<rparr>) \<and>
   fst (run_pass_stores example_ext
     (example_pass\<lparr>m_emit_canaries := True, m_linear_alloc_limit := 11878400,
        m_mixed_mode_dex_statuses := {SCROLL_DEX}\<rparr>) example_two_roots example_mgr) =
   [PLUGIN_CONFIGURE 7 [10, 20, 30], TRACE 3 WillCompilePredefinedDexes,
    INTERDEX_RUN (example_interdex\<lparr>idx_mixed_mode := MixedModeDexStatuses {SCROLL_DEX}\<rparr>),
    PLUGIN_CLEANUP 7 [10, 20, 30],
    PLUGIN_CONFIGURE 7 [10, 20, 30], TRACE 4 (AddingToScrollList 30),
    TRACE 3 (PrecomputedMixedModeClasses 1),
    INTERDEX_RUN (example_interdex\<lparr>idx_dexen := [[30]],
      idx_mixed_mode := MixedModeClasses {30} False False\<rparr>),
    PLUGIN_CLEANUP 7 [10, 20, 30]]"
proof -
  have scope: "build_class_scope example_ext example_two_roots = [10, 20, 30]"
    by (simp add: example_ext_def example_two_roots_def)
  have np: "\<not> no_proguard_rules example_mgr" by (simp add: example_mgr_def)
  have moved: "moved_from example_ext {SCROLL_DEX} = {}" by (simp add: example_ext_def)
  have nofile: "example_pass\<lparr>m_emit_canaries := True, m_linear_alloc_limit := 11878400,
        m_mixed_mode_dex_statuses := {SCROLL_DEX}\<rparr> =
      example_pass\<lparr>m_emit_canaries := True, m_linear_alloc_limit := 11878400,
        m_mixed_mode_classes_file := [], m_mixed_mode_dex_statuses := {SCROLL_DEX}\<rparr>"
    by (simp add: example_pass_def)
  have list: "run_pass_stores example_ext
     (example_pass\<lparr>m_emit_canaries := True, m_linear_alloc_limit := 11878400,
        m_mixed_mode_classes_file := ''twice_a.txt'',
        m_mixed_mode_dex_statuses := {SCROLL_DEX}\<rparr>) example_two_roots example_mgr =
   ([PLUGIN_CONFIGURE 7 [10, 20, 30], TRACE 3 WillCompilePredefinedDexes,
     INTERDEX_RUN (example_interdex\<lparr>idx_mixed_mode := MixedModeDexStatuses {SCROLL_DEX}\<rparr>),
     PLUGIN_CLEANUP 7 [10, 20, 30],
     PLUGIN_CONFIGURE 7 [10, 20, 30], TRACE 4 (AddingInMixedModeList 10),
     TRACE 4 (AddingInMixedModeList 20), TRACE 2 DuplicateClassesFound],
    Inl Exit1)"
    unfolding run_pass_stores_def scope
    by (simp add: np example_two_roots_def example_first_root_run
        example_second_root_run_list)
  have flags: "fst (run_pass_stores example_ext
     (example_pass\<lparr>m_emit_canaries := True, m_linear_alloc_limit := 11878400,
        m_mixed_mode_dex_statuses := {SCROLL_DEX}\<rparr>) example_two_roots example_mgr) =
   [PLUGIN_CONFIGURE 7 [10, 20, 30], TRACE 3 WillCompilePredefinedDexes,
    INTERDEX_RUN (example_interdex\<lparr>idx_mixed_mode := MixedModeDexStatuses {SCROLL_DEX}\<rparr>),
    PLUGIN_CLEANUP 7 [10, 20, 30],
    PLUGIN_CONFIGURE 7 [10, 20, 30], TRACE 4 (AddingToScrollList 30),
    TRACE 3 (PrecomputedMixedModeClasses 1),
    INTERDEX_RUN (example_interdex\<lparr>idx_dexen := [[30]],
      idx_mixed_mode := MixedModeClasses {30} False False\<rparr>),
    PLUGIN_CLEANUP 7 [10, 20, 30]]"
    unfolding run_pass_stores_def scope nofile
    by (simp add: np example_two_roots_def example_first_root_run
        example_second_root_run_flags)
  have names: "jw_get [] (mixed_mode_dexes
      (example_jw\<lparr>scroll_classes_file := Some ''twice_a.txt'',
         mixed_mode_dexes := Some [''scroll_dex'']\<rparr>)) \<noteq> []"
    by (simp add: jw_get_def)
  have moved': "moved_from example_ext (m_mixed_mode_dex_statuses
      (example_pass\<lparr>m_emit_canaries := True, m_linear_alloc_limit := 11878400,
         m_mixed_mode_classes_file := ''twice_a.txt'',
         m_mixed_mode_dex_statuses := {SCROLL_DEX}\<rparr>)) = {}"
    by (simp add: example_ext_def)
  have roots: "is_root_store \<lparr>is_root_store = True, get_dexen = [[10], [20]]\<rparr>"
    "is_root_store \<lparr>is_root_store = True, get_dexen = [[30]]\<rparr>"
    by simp_all
  have "snd (get_mixed_mode_classes_file example_ext ''twice_a.txt'') = Inl Exit1"
    by (simp add: get_mixed_mode_classes_file_def example_ext_def example_ifstream_def
        c_str_def extract_words_def isspace_def example_get_type_def example_type_class_def)
  then have exits: "snd (get_mixed_mode_classes example_ext
      (get_dexen \<lparr>is_root_store = True, get_dexen = [[30]]\<rparr>)
      (m_mixed_mode_classes_file
        (example_pass\<lparr>m_emit_canaries := True, m_linear_alloc_limit := 11878400,
           m_mixed_mode_classes_file := ''twice_a.txt'',
           m_mixed_mode_dex_statuses := {SCROLL_DEX}\<rparr>))) = Inl Exit1"
    by (simp add: get_mixed_mode_classes_def)
  from second_root_store_takes_the_class_set_path
    [OF example_configure_pass names moved' roots np] exits
  have fatal: "snd (run_pass_stores example_ext
     (example_pass\<lparr>m_emit_canaries := True, m_linear_alloc_limit := 11878400,
        m_mixed_mode_classes_file := ''twice_a.txt'',
        m_mixed_mode_dex_statuses := {SCROLL_DEX}\<rparr>)
     [\<lparr>is_root_store = True, get_dexen = [[10], [20]]\<rparr>,
      \<lparr>is_root_store = True, get_dexen = [[30]]\<rparr>] example_mgr) = Inl Exit1"
    by blast
  from fatal example_configure_pass example_configure_pass_no_file moved list flags
  show ?thesis by blast
qed

text \<open>
  C8. When the pass manager reports that no ProGuard rules were given, the pass on all
  stores returns at once: the log holds the one diagnostic and no plugin or engine
  event, and the pass object, the stores and the pass manager (its metrics included) are
  returned as they were, with no fatal exit.
\<close>

theorem missing_proguard_rules_skip_the_pass:
  "no_proguard_rules mgr \<Longrightarrow>
   run_pass_stores ext pass stores mgr = ([TRACE 1 NotRunNoProguard], Inr (pass, stores, mgr))"
  by (simp add: run_pass_stores_def)

theorem missing_proguard_rules_skip_the_pass_witness:
  "no_proguard_rules (example_mgr\<lparr>no_proguard_rules := True\<rparr>) \<and>
   run_pass_stores example_ext example_pass example_stores
       (example_mgr\<lparr>no_proguard_rules := True\<rparr>) =
     ([TRACE 1 NotRunNoProguard],
      Inr (example_pass, example_stores, example_mgr\<lparr>no_proguard_rules := True\<rparr>))"
  using missing_proguard_rules_skip_the_pass
    [of "example_mgr\<lparr>no_proguard_rules := True\<rparr>" example_ext example_pass example_stores]
  by simp

text \<open>
  C9. When the pass on all stores returns, the stores are as many as before and keep
  their root flags, and every store that is not a root store is returned unchanged;
  a root store holds the dexen that the engine returned for an \<^verbatim>\<open>InterDex\<close> object
  built on its own dexen.
\<close>

theorem stores_other_than_root_pass_through:
  assumes "run_pass_stores ext pass stores mgr = (log, Inr (pass', stores', mgr'))"
  shows "length stores' = length stores \<and>
         (\<forall>i < length stores.
            is_root_store (stores' ! i) = is_root_store (stores ! i) \<and>
            (\<not> is_root_store (stores ! i) \<longrightarrow> stores' ! i = stores ! i) \<and>
            (is_root_store (stores ! i) \<and> \<not> no_proguard_rules mgr \<longrightarrow>
               (\<exists>interdex. idx_dexen interdex = get_dexen (stores ! i) \<and>
                  get_dexen (stores' ! i) = fst (interdex_run ext interdex))))"
proof (cases "no_proguard_rules mgr")
  case True
  with assms show ?thesis by (simp add: run_pass_stores_def)
next
  case False
  with assms have "run_pass_loop ext stores pass (build_class_scope ext stores) mgr =
      (log, Inr (pass', stores', mgr'))"
    by (simp add: run_pass_stores_def)
  from run_pass_loop_frame [OF this] show ?thesis
    by (simp add: list_all2_conv_all_nth)
qed

theorem stores_other_than_root_pass_through_witness:
  "snd (run_pass_stores example_ext example_pass example_stores example_mgr) =
     Inr (example_pass,
          [\<lparr>is_root_store = False, get_dexen = [[30]]\<rparr>,
           \<lparr>is_root_store = True, get_dexen = [[10, 20]]\<rparr>,
           \<lparr>is_root_store = False, get_dexen = [[40, 50]]\<rparr>],
          set_metric METRIC_SCROLL_SET_DEX_COUNT 0
            (set_metric METRIC_COLD_START_SET_DEX_COUNT 0 example_mgr)) \<and>
   example_stores ! 0 = \<lparr>is_root_store = False, get_dexen = [[30]]\<rparr> \<and>
   example_stores ! 1 = \<lparr>is_root_store = True, get_dexen = [[10], [20]]\<rparr> \<and>
   example_stores ! 2 = \<lparr>is_root_store = False, get_dexen = [[40, 50]]\<rparr>"
proof -
  let ?stores' = "[\<lparr>is_root_store = False, get_dexen = [[30]]\<rparr>,
           \<lparr>is_root_store = True, get_dexen = [[10, 20]]\<rparr>,
           \<lparr>is_root_store = False, get_dexen = [[40, 50]]\<rparr>]"
  note frame = stores_other_than_root_pass_through [OF example_run_pass_stores]
  from frame have len: "length ?stores' = length example_stores" by blast
  from frame have "\<not> is_root_store (example_stores ! 0) \<longrightarrow> ?stores' ! 0 = example_stores ! 0"
    by (simp add: example_stores_def)
  then have s0: "example_stores ! 0 = \<lparr>is_root_store = False, get_dexen = [[30]]\<rparr>"
    by (simp add: example_stores_def)
  from frame have "\<not> is_root_store (example_stores ! 2) \<longrightarrow> ?stores' ! 2 = example_stores ! 2"
    by (simp add: example_stores_def)
  then have s2: "example_stores ! 2 = \<lparr>is_root_store = False, get_dexen = [[40, 50]]\<rparr>"
    by (simp add: example_stores_def)
  have s1: "example_stores ! 1 = \<lparr>is_root_store = True, get_dexen = [[10], [20]]\<rparr>"
    by (simp add: example_stores_def)
  from s0 s1 s2 show ?thesis by (simp add: example_run_pass_stores)
qed

section \<open>One packing run\<close>





























end
